theory Spec2Isabelle
  imports Main "HOL-Library.Sublist"
begin

section \<open>Python values, text and exceptions\<close>

text \<open>
  The orchestration layer of the financial advisor is Python. Its values are embedded as
  follows.
  \<^item> Text is \<^typ>\<open>string\<close>; one \<^typ>\<open>char\<close> stands for one character of a Python
    \<^verbatim>\<open>str\<close>, so \<^const>\<open>length\<close> is \<^verbatim>\<open>len\<close> and \<^const>\<open>take\<close> is a prefix slice. The
    characters covered are the code points below 256.
  \<^item> A value of unknown type (a JSON payload, a response envelope, a search result) is a
    \<open>pyval\<close>; JSON numbers are represented by integers, a dictionary by its items
    in order.
  \<^item> An exception is a value \<open>Exn cls msg\<close>: its class and the text \<^verbatim>\<open>str(e)\<close>.
    The classes are the ones the two modules name in their handlers; every exception
    modelled derives from \<^verbatim>\<open>Exception\<close>. Interrupts of the process such as
    \<^verbatim>\<open>KeyboardInterrupt\<close>, which no \<^verbatim>\<open>except Exception\<close> clause catches, are not
    failures of a capability and are outside the model.
  \<^item> A function that can raise returns \<open>exn + 'a\<close>, with \<open>Inl\<close> for the exception
    that leaves the function.
\<close>

datatype pyval =
    PNone
  | PBool bool
  | PInt int
  | PStr string
  | PList "pyval list"
  | PDict "(string \<times> pyval) list"

text \<open>Truth value testing, as \<^verbatim>\<open>if not x\<close> performs it.\<close>

fun truthy :: "pyval \<Rightarrow> bool" where
  "truthy PNone = False"
| "truthy (PBool b) = b"
| "truthy (PInt n) = (n \<noteq> 0)"
| "truthy (PStr s) = (s \<noteq> [])"
| "truthy (PList xs) = (xs \<noteq> [])"
| "truthy (PDict kvs) = (kvs \<noteq> [])"

text \<open>\<^verbatim>\<open>isinstance(x, str)\<close>.\<close>

fun is_str :: "pyval \<Rightarrow> bool" where
  "is_str (PStr s) = True"
| "is_str v = False"

text \<open>\<^verbatim>\<open>d.get(key, default)\<close> and \<^verbatim>\<open>d[key]\<close> on values that are dictionaries.\<close>

definition dict_get :: "(string \<times> pyval) list \<Rightarrow> string \<Rightarrow> pyval \<Rightarrow> pyval" where
  "dict_get kvs key dflt = (case map_of kvs key of None \<Rightarrow> dflt | Some v \<Rightarrow> v)"

fun lookup :: "pyval \<Rightarrow> string \<Rightarrow> pyval option" where
  "lookup (PDict kvs) key = map_of kvs key"
| "lookup v key = None"

datatype exn_class =
    Exception
  | ValueError
  | TypeError
  | DuckDuckGoSearchException
  | RatelimitException
  | MemoryError
  | ConnectionError
  | TimeoutError
  | PermissionError
  | OtherClass string

datatype exn = Exn (cls: exn_class) (msg: string)

text \<open>
  The subclass relation among the modelled classes: everything derives from
  \<^verbatim>\<open>Exception\<close>, and \<^verbatim>\<open>RatelimitException\<close> derives from
  \<^verbatim>\<open>DuckDuckGoSearchException\<close>. An \<^verbatim>\<open>except C\<close> clause catches \<open>e\<close> when
  \<open>isinstance e C\<close>.
\<close>

fun issubclass :: "exn_class \<Rightarrow> exn_class \<Rightarrow> bool" where
  "issubclass c Exception = True"
| "issubclass RatelimitException DuckDuckGoSearchException = True"
| "issubclass c d = (c = d)"

definition isinstance :: "exn \<Rightarrow> exn_class \<Rightarrow> bool" where
  "isinstance e c = issubclass (cls e) c"

text \<open>\<^verbatim>\<open>type(e).__name__\<close>.\<close>

fun class_name :: "exn_class \<Rightarrow> string" where
  "class_name Exception = ''Exception''"
| "class_name ValueError = ''ValueError''"
| "class_name TypeError = ''TypeError''"
| "class_name DuckDuckGoSearchException = ''DuckDuckGoSearchException''"
| "class_name RatelimitException = ''RatelimitException''"
| "class_name MemoryError = ''MemoryError''"
| "class_name ConnectionError = ''ConnectionError''"
| "class_name TimeoutError = ''TimeoutError''"
| "class_name PermissionError = ''PermissionError''"
| "class_name (OtherClass n) = n"

subsection \<open>Text operations\<close>

text \<open>
  \<^verbatim>\<open>str.isspace\<close> on one character, \<^verbatim>\<open>str.strip()\<close>, \<^verbatim>\<open>str.lower()\<close> and the
  substring test \<^verbatim>\<open>pattern in text\<close>. Below code point 256 the whitespace characters are
  9 to 13, 28 to 32, 133 and 160, and the letters that \<^verbatim>\<open>lower\<close> changes are
  \<^verbatim>\<open>A-Z\<close> and 192 to 222 without 215, each moved up by 32.
\<close>

definition whitespace :: string where
  "whitespace = [CHR 0x09, CHR 0x0A, CHR 0x0B, CHR 0x0C, CHR 0x0D,
                 CHR 0x1C, CHR 0x1D, CHR 0x1E, CHR 0x1F, CHR 0x20, CHR 0x85, CHR 0xA0]"

definition isspace :: "char \<Rightarrow> bool" where
  "isspace c = (c \<in> set whitespace)"

definition strip :: "string \<Rightarrow> string" where
  "strip s = rev (dropWhile isspace (rev (dropWhile isspace s)))"

definition upper_case :: string where
  "upper_case =
     ''ABCDEFGHIJKLMNOPQRSTUVWXYZ'' @
       [CHR 0xC0, CHR 0xC1, CHR 0xC2, CHR 0xC3, CHR 0xC4, CHR 0xC5, CHR 0xC6, CHR 0xC7,
        CHR 0xC8, CHR 0xC9, CHR 0xCA, CHR 0xCB, CHR 0xCC, CHR 0xCD, CHR 0xCE, CHR 0xCF,
        CHR 0xD0, CHR 0xD1, CHR 0xD2, CHR 0xD3, CHR 0xD4, CHR 0xD5, CHR 0xD6, CHR 0xD8,
        CHR 0xD9, CHR 0xDA, CHR 0xDB, CHR 0xDC, CHR 0xDD, CHR 0xDE]"

definition lower_case :: string where
  "lower_case =
     ''abcdefghijklmnopqrstuvwxyz'' @
       [CHR 0xE0, CHR 0xE1, CHR 0xE2, CHR 0xE3, CHR 0xE4, CHR 0xE5, CHR 0xE6, CHR 0xE7,
        CHR 0xE8, CHR 0xE9, CHR 0xEA, CHR 0xEB, CHR 0xEC, CHR 0xED, CHR 0xEE, CHR 0xEF,
        CHR 0xF0, CHR 0xF1, CHR 0xF2, CHR 0xF3, CHR 0xF4, CHR 0xF5, CHR 0xF6, CHR 0xF8,
        CHR 0xF9, CHR 0xFA, CHR 0xFB, CHR 0xFC, CHR 0xFD, CHR 0xFE]"

definition lower_char :: "char \<Rightarrow> char" where
  "lower_char c = (case map_of (zip upper_case lower_case) c of None \<Rightarrow> c | Some l \<Rightarrow> l)"

definition lower :: "string \<Rightarrow> string" where
  "lower s = map lower_char s"

definition py_in :: "string \<Rightarrow> string \<Rightarrow> bool" where
  "py_in pattern text = sublist pattern text"

section \<open>The request boundary: \<^verbatim>\<open>financial_advisor_agentcore.py\<close>\<close>

subsection \<open>\<^verbatim>\<open>process_agentcore_payload\<close>\<close>

text \<open>
  The function, without its logging:
  \<^verbatim>\<open>
  def process_agentcore_payload(payload):
      if not isinstance(payload, dict):
          raise ValueError("Payload must be a dictionary")
      user_query = payload.get("prompt", "")
      if not user_query:
          raise ValueError("Please provide a financial advisory request. ...")
      if not isinstance(user_query, str):
          raise ValueError("The 'prompt' field must be a string ...")
      processed_query = user_query.strip()
      MAX_INPUT_LENGTH = 5000
      if len(processed_query) > MAX_INPUT_LENGTH:
          raise ValueError(f"Query too long. Maximum {MAX_INPUT_LENGTH} characters allowed.")
      suspicious_patterns = ['<script', 'javascript:', 'eval(', 'exec(', '__import__',
                             'subprocess', 'os.system']
      query_lower = processed_query.lower()
      for pattern in suspicious_patterns:
          if pattern in query_lower:
              raise ValueError("Invalid characters detected in query. ...")
      if not processed_query:
          raise ValueError("Please provide a non-empty financial advisory request. ...")
      return processed_query
  \<close>
\<close>

definition missing_prompt_message :: string where
  "missing_prompt_message =
     ''Please provide a financial advisory request. '' @
     ''Include ticker symbol, risk tolerance (Conservative/Moderate/Aggressive), '' @
     ''and investment horizon (Short-term/Medium-term/Long-term) for best results. '' @
     ''Example: 'Analyze AAPL stock for moderate risk investor with long-term horizon'' @
     [CHR 0x27]"

definition not_a_string_message :: string where
  "not_a_string_message =
     ''The 'prompt' field must be a string containing your financial query''"

definition MAX_INPUT_LENGTH :: nat where
  "MAX_INPUT_LENGTH = 5000"

definition too_long_message :: string where
  "too_long_message = ''Query too long. Maximum 5000 characters allowed.''"

definition suspicious_patterns :: "string list" where
  "suspicious_patterns =
     [''<script'', ''javascript:'', ''eval('', ''exec('', ''__import__'', ''subprocess'',
      ''os.system'']"

definition suspicious_message :: string where
  "suspicious_message =
     ''Invalid characters detected in query. '' @
     ''Please provide a standard financial advisory request.''"

definition whitespace_only_message :: string where
  "whitespace_only_message =
     ''Please provide a non-empty financial advisory request. '' @
     ''Include ticker symbol, risk tolerance, and investment horizon for best results.''"

text \<open>
  The loop over \<^verbatim>\<open>suspicious_patterns\<close>: it raises at the first pattern found in the
  lower-cased query and falls through when there is none.
\<close>

fun check_patterns :: "string list \<Rightarrow> string \<Rightarrow> exn + unit" where
  "check_patterns [] query_lower = Inr ()"
| "check_patterns (pattern # rest) query_lower =
     (if py_in pattern query_lower then Inl (Exn ValueError suspicious_message)
      else check_patterns rest query_lower)"

definition process_agentcore_payload :: "pyval \<Rightarrow> exn + string" where
  "process_agentcore_payload payload =
     (case payload of
        PDict kvs \<Rightarrow>
          (let user_query = dict_get kvs ''prompt'' (PStr '''') in
           if \<not> truthy user_query then Inl (Exn ValueError missing_prompt_message)
           else
             (case user_query of
                PStr text \<Rightarrow>
                  (let processed_query = strip text in
                   if length processed_query > MAX_INPUT_LENGTH
                   then Inl (Exn ValueError too_long_message)
                   else
                     (case check_patterns suspicious_patterns (lower processed_query) of
                        Inl e \<Rightarrow> Inl e
                      | Inr u \<Rightarrow>
                          if processed_query = []
                          then Inl (Exn ValueError whitespace_only_message)
                          else Inr processed_query))
              | other \<Rightarrow> Inl (Exn ValueError not_a_string_message)))
      | other \<Rightarrow> Inl (Exn ValueError ''Payload must be a dictionary''))"

subsection \<open>\<^verbatim>\<open>format_agentcore_response\<close>\<close>

text \<open>
  The two readings of the clock, \<^verbatim>\<open>datetime.now(timezone.utc).isoformat()\<close>, are
  arguments \<open>ts1\<close> and \<open>ts2\<close>.
\<close>

definition format_agentcore_response :: "string \<Rightarrow> string \<Rightarrow> string \<Rightarrow> pyval" where
  "format_agentcore_response advisor_response ts1 ts2 =
     (let response_length = (if advisor_response \<noteq> [] then int (length advisor_response) else 0)
      in PDict
        [(''result'', PStr advisor_response),
         (''timestamp'', PStr ts1),
         (''system'', PStr ''financial-advisor-multiagent''),
         (''metadata'', PDict
            [(''version'', PStr ''1.0.0''),
             (''agent_type'', PStr ''financial_advisor''),
             (''educational_disclaimer'', PBool True),
             (''response_format'', PStr ''structured_analysis''),
             (''capabilities'', PList
                [PStr ''market_intelligence'', PStr ''strategy_development'',
                 PStr ''execution_planning'', PStr ''risk_assessment'']),
             (''disclaimer'', PStr ''Educational purposes only - not licensed financial advice''),
             (''response_stats'', PDict
                [(''character_count'', PInt response_length),
                 (''processing_timestamp'', PStr ts2)])])])"

subsection \<open>\<^verbatim>\<open>invoke\<close>, the entrypoint\<close>

text \<open>
  A capability handle of the generative model (a Strands \<^verbatim>\<open>Agent\<close>) is a function of
  the state of the world outside the program, the prompt and the keyword arguments of the
  call. It gives the outcome of \<^verbatim>\<open>str(agent(prompt, **kwargs))\<close>, a text or the
  exception raised, and the next state: two calls with the same arguments may differ.
\<close>

type_synonym kwargs = "(string \<times> pyval) list"

type_synonym 's agent = "'s \<Rightarrow> string \<Rightarrow> kwargs \<Rightarrow> (exn + string) \<times> 's"

text \<open>\<^verbatim>\<open>FinancialAdvisorOrchestrator.analyze\<close>: one call of the orchestrator's agent.\<close>

definition analyze :: "'s agent \<Rightarrow> string \<Rightarrow> 's \<Rightarrow> (exn + string) \<times> 's" where
  "analyze agent user_query s = agent s user_query []"

text \<open>
  \<^verbatim>\<open>invoke_financial_advisor_with_logging\<close> logs, calls \<^verbatim>\<open>advisor.analyze\<close> and raises
  again whatever that call raised.
\<close>

definition invoke_financial_advisor_with_logging ::
    "'s agent \<Rightarrow> string \<Rightarrow> 's \<Rightarrow> (exn + string) \<times> 's" where
  "invoke_financial_advisor_with_logging advisor user_query s =
     (case analyze advisor user_query s of
        (Inl e, s') \<Rightarrow> (Inl e, s')
      | (Inr response, s') \<Rightarrow> (Inr response, s'))"

definition error_envelope :: "string \<Rightarrow> string \<Rightarrow> string \<Rightarrow> (string \<times> pyval) list \<Rightarrow> pyval" where
  "error_envelope error_message error_type ts metadata =
     PDict
       [(''error'', PStr error_message),
        (''error_type'', PStr error_type),
        (''timestamp'', PStr ts),
        (''system'', PStr ''financial-advisor-multiagent''),
        (''metadata'', PDict metadata)]"

text \<open>The \<^verbatim>\<open>except\<close> clauses of \<^verbatim>\<open>invoke\<close>, in the order of the source.\<close>

definition invoke_except :: "exn \<Rightarrow> string \<Rightarrow> exn + pyval" where
  "invoke_except e ts =
     (if isinstance e ValueError then
        Inr (error_envelope (''Invalid request format: '' @ msg e) ''validation_error'' ts
          [(''error_category'', PStr ''payload_validation''),
           (''recoverable'', PBool True),
           (''suggestion'', PStr ''Please check your request format and try again'')])
      else if isinstance e RatelimitException then
        Inr (error_envelope
          ''Web search rate limit exceeded. Please try again after a short delay.''
          ''rate_limit_error'' ts
          [(''error_category'', PStr ''web_search_rate_limit''),
           (''recoverable'', PBool True),
           (''retry_after_seconds'', PInt 60),
           (''existing_mechanism'',
              PStr ''websearch() tool handles RatelimitException gracefully''),
           (''suggestion'', PStr ''Please wait a minute and try your request again'')])
      else if isinstance e DuckDuckGoSearchException then
        Inr (error_envelope
          ''Web search service temporarily unavailable. Analysis may be limited.''
          ''web_search_error'' ts
          [(''error_category'', PStr ''web_search_failure''),
           (''recoverable'', PBool True),
           (''fallback_available'', PBool True),
           (''existing_mechanism'', PStr
              (''websearch() tool handles DuckDuckGoSearchException '' @
               ''with informative error messages'')),
           (''suggestion'', PStr ''The system will attempt analysis with available data'')])
      else if isinstance e TypeError then
        Inr (error_envelope ''Agent configuration error. Using fallback mechanisms.''
          ''agent_parameter_error'' ts
          [(''error_category'', PStr ''agent_invocation''),
           (''recoverable'', PBool True),
           (''fallback_engaged'', PBool True),
           (''existing_mechanism'', PStr
              (''invoke_agent() function tries multiple parameter formats '' @
               ''for model compatibility'')),
           (''fallback_sequence'', PList
              [PStr ''max_output_tokens'', PStr ''max_tokens'', PStr ''generation_config'',
               PStr ''inference_params'', PStr ''no-kwargs'']),
           (''suggestion'', PStr
              ''The system is using fallback mechanisms to process your request'')])
      else if isinstance e MemoryError then
        Inr (error_envelope ''Request too large. Please try with a shorter query.''
          ''memory_error'' ts
          [(''error_category'', PStr ''token_limit_exceeded''),
           (''recoverable'', PBool True),
           (''suggestion'', PStr ''Please shorten your query and try again'')])
      else if isinstance e ConnectionError then
        Inr (error_envelope ''Network connectivity issue. Please try again.''
          ''connection_error'' ts
          [(''error_category'', PStr ''network_connectivity''),
           (''recoverable'', PBool True),
           (''suggestion'', PStr ''Please check your connection and try again'')])
      else if isinstance e TimeoutError then
        Inr (error_envelope
          ''Request timeout. The analysis is taking longer than expected.''
          ''timeout_error'' ts
          [(''error_category'', PStr ''request_timeout''),
           (''recoverable'', PBool True),
           (''suggestion'', PStr ''Please try again or simplify your request'')])
      else if isinstance e PermissionError then
        Inr (error_envelope ''Access denied. Please check your permissions.''
          ''permission_error'' ts
          [(''error_category'', PStr ''access_control''),
           (''recoverable'', PBool False),
           (''suggestion'', PStr ''Please contact support if you believe this is an error'')])
      else if isinstance e Exception then
        Inr (error_envelope
          ''An unexpected error occurred processing your financial advisory request''
          ''system_error'' ts
          [(''error_category'', PStr ''system_error''),
           (''error_class'', PStr (class_name (cls e))),
           (''recoverable'', PBool False),
           (''suggestion'', PStr
              ''Please try again later or contact support if the issue persists'')])
      else Inl e)"

definition invoke ::
    "'s agent \<Rightarrow> pyval \<Rightarrow> string \<Rightarrow> string \<Rightarrow> 's \<Rightarrow> (exn + pyval) \<times> 's" where
  "invoke advisor payload ts1 ts2 s =
     (case process_agentcore_payload payload of
        Inl e \<Rightarrow> (invoke_except e ts1, s)
      | Inr user_query \<Rightarrow>
          (case invoke_financial_advisor_with_logging advisor user_query s of
             (Inl e, s') \<Rightarrow> (invoke_except e ts1, s')
           | (Inr response, s') \<Rightarrow> (Inr (format_agentcore_response response ts1 ts2), s')))"

section \<open>The orchestration layer: \<^verbatim>\<open>financial_advisor_multiagent.py\<close>\<close>

subsection \<open>\<^verbatim>\<open>invoke_agent\<close>\<close>

definition TOKEN_CAP :: int where
  "TOKEN_CAP = 2000"

text \<open>The tuple of keyword dictionaries the \<^verbatim>\<open>for\<close> loop goes through.\<close>

definition kwargs_variants :: "int \<Rightarrow> kwargs list" where
  "kwargs_variants max_tokens =
     [[(''max_output_tokens'', PInt max_tokens)],
      [(''max_tokens'', PInt max_tokens)],
      [(''generation_config'', PDict [(''max_output_tokens'', PInt max_tokens)])],
      [(''inference_params'', PDict [(''max_tokens'', PInt max_tokens)])]]"

text \<open>
  \<^verbatim>\<open>
  def invoke_agent(agent, prompt, max_tokens=TOKEN_CAP):
      for kwargs in (
          {"max_output_tokens": max_tokens},
          {"max_tokens": max_tokens},
          {"generation_config": {"max_output_tokens": max_tokens}},
          {"inference_params": {"max_tokens": max_tokens}},
      ):
          try:
              return str(agent(prompt, **kwargs))
          except TypeError:
              continue
          except Exception as e:
              return f"Agent invocation error: {e}"
      try:
          return str(agent(prompt))
      except Exception as e:
          return f"Agent invocation error (no-kwargs): {e}"
  \<close>
  In the model of the loop, \<open>Some r\<close> is a \<^verbatim>\<open>return\<close> (or an exception no clause
  catches) inside the loop, and \<open>None\<close> is the loop running to its end.
\<close>

fun invoke_agent_loop ::
    "'s agent \<Rightarrow> string \<Rightarrow> kwargs list \<Rightarrow> 's \<Rightarrow> (exn + string) option \<times> 's" where
  "invoke_agent_loop agent prompt [] s = (None, s)"
| "invoke_agent_loop agent prompt (kwargs # rest) s =
     (case agent s prompt kwargs of
        (Inr text, s') \<Rightarrow> (Some (Inr text), s')
      | (Inl e, s') \<Rightarrow>
          if isinstance e TypeError then invoke_agent_loop agent prompt rest s'
          else if isinstance e Exception
          then (Some (Inr (''Agent invocation error: '' @ msg e)), s')
          else (Some (Inl e), s'))"

definition invoke_agent :: "'s agent \<Rightarrow> string \<Rightarrow> int \<Rightarrow> 's \<Rightarrow> (exn + string) \<times> 's" where
  "invoke_agent agent prompt max_tokens s =
     (case invoke_agent_loop agent prompt (kwargs_variants max_tokens) s of
        (Some r, s') \<Rightarrow> (r, s')
      | (None, s') \<Rightarrow>
          (case agent s' prompt [] of
             (Inr text, s'') \<Rightarrow> (Inr text, s'')
           | (Inl e, s'') \<Rightarrow>
               if isinstance e Exception
               then (Inr (''Agent invocation error (no-kwargs): '' @ msg e), s'')
               else (Inl e, s'')))"

subsection \<open>\<^verbatim>\<open>websearch\<close>\<close>

text \<open>
  \<^verbatim>\<open>
  def websearch(keywords, region="us-en", max_results=None):
      try:
          results = DDGS().text(keywords, region=region, max_results=max_results)
          return results if results else "No results found."
      except RatelimitException:
          return "RatelimitException: Please try again after a short delay."
      except DuckDuckGoSearchException as d:
          return f"DuckDuckGoSearchException: {d}"
      except Exception as e:
          return f"Exception: {e}"
  \<close>
  The search capability \<^verbatim>\<open>DDGS().text\<close> gives a list of result records or raises.
\<close>

type_synonym 's search = "'s \<Rightarrow> string \<Rightarrow> string \<Rightarrow> int option \<Rightarrow> (exn + pyval list) \<times> 's"

definition websearch ::
    "'s search \<Rightarrow> string \<Rightarrow> string \<Rightarrow> int option \<Rightarrow> 's \<Rightarrow> (exn + pyval) \<times> 's" where
  "websearch search keywords region max_results s =
     (case search s keywords region max_results of
        (Inr results, s') \<Rightarrow>
          (Inr (if results \<noteq> [] then PList results else PStr ''No results found.''), s')
      | (Inl e, s') \<Rightarrow>
          if isinstance e RatelimitException
          then (Inr (PStr ''RatelimitException: Please try again after a short delay.''), s')
          else if isinstance e DuckDuckGoSearchException
          then (Inr (PStr (''DuckDuckGoSearchException: '' @ msg e)), s')
          else if isinstance e Exception
          then (Inr (PStr (''Exception: '' @ msg e)), s')
          else (Inl e, s'))"

subsection \<open>The specialist tools\<close>

text \<open>Formatting an integer in an f-string.\<close>

fun digits :: "nat \<Rightarrow> string" where
  "digits n =
     (if n < 10 then [''0123456789'' ! n]
      else digits (n div 10) @ [''0123456789'' ! (n mod 10)])"

definition str_of_int :: "int \<Rightarrow> string" where
  "str_of_int i = (if i < 0 then ''-'' @ digits (nat (- i)) else digits (nat i))"

text \<open>The module-level \<^verbatim>\<open>_agents\<close>: the four specialist agents.\<close>

record 's agents =
  market_intelligence :: "'s agent"
  strategy_architect :: "'s agent"
  execution_planner :: "'s agent"
  risk_assessor :: "'s agent"

definition market_intel_prompt :: "string \<Rightarrow> int \<Rightarrow> string" where
  "market_intel_prompt ticker lookback_days =
     ''Research '' @ ticker @ '' for the last '' @ str_of_int lookback_days @ '' days. '' @
     ''Use `websearch` to find SEC filings, reputable news, and analyst commentary. '' @
     ''Provide sources and a concise market summary. '' @
     ''End with: '' @ [CHR 0x22] @
     ''This analysis is for educational purposes only and does not constitute financial advice.''
     @ [CHR 0x22]"

definition market_intel_tool ::
    "'s agents \<Rightarrow> string \<Rightarrow> int \<Rightarrow> 's \<Rightarrow> (exn + string) \<times> 's" where
  "market_intel_tool ags ticker lookback_days s =
     invoke_agent (market_intelligence ags) (market_intel_prompt ticker lookback_days)
       TOKEN_CAP s"

definition strategy_architect_prompt :: "string \<Rightarrow> string \<Rightarrow> string \<Rightarrow> string" where
  "strategy_architect_prompt ticker risk_attitude horizon =
     ''Based on market context for '' @ ticker @ '', generate 5 distinct strategies. '' @
     ''Align to risk attitude: '' @ risk_attitude @ ''; and horizon: '' @ horizon @ ''. '' @
     ''For each: objective, thesis, entry/exit, risk, and expected conditions. '' @
     ''End with: '' @ [CHR 0x22] @
     ''These strategies are for educational purposes only and do not constitute financial advice.''
     @ [CHR 0x22]"

definition strategy_architect_tool ::
    "'s agents \<Rightarrow> string \<Rightarrow> string \<Rightarrow> string \<Rightarrow> 's \<Rightarrow> (exn + string) \<times> 's" where
  "strategy_architect_tool ags ticker risk_attitude horizon s =
     invoke_agent (strategy_architect ags)
       (strategy_architect_prompt ticker risk_attitude horizon) TOKEN_CAP s"

definition execution_planner_prompt :: "string \<Rightarrow> string \<Rightarrow> string" where
  "execution_planner_prompt ticker strategy_summary =
     ''Convert the following strategy summary for '' @ ticker @
     '' into a detailed execution plan:'' @ [CHR 0x0A, CHR 0x0A] @
     strategy_summary @ [CHR 0x0A, CHR 0x0A] @
     ''Include order types, sizing, timing windows, and risk controls '' @
     ''(stops, limits, hedges). '' @
     ''End with: '' @ [CHR 0x22] @
     ''This execution plan is for educational purposes only and does not constitute financial advice.''
     @ [CHR 0x22]"

definition execution_planner_tool ::
    "'s agents \<Rightarrow> string \<Rightarrow> string \<Rightarrow> 's \<Rightarrow> (exn + string) \<times> 's" where
  "execution_planner_tool ags ticker strategy_summary s =
     invoke_agent (execution_planner ags) (execution_planner_prompt ticker strategy_summary)
       TOKEN_CAP s"

definition risk_assessor_prompt :: "string \<Rightarrow> string \<Rightarrow> string \<Rightarrow> string \<Rightarrow> string" where
  "risk_assessor_prompt ticker market_summary strategies_summary execution_plan =
     ''Evaluate overall risk for '' @ ticker @ ''. Consider:'' @ [CHR 0x0A] @
     ''- Market summary:'' @ [CHR 0x0A] @ market_summary @ [CHR 0x0A, CHR 0x0A] @
     ''- Strategies summary:'' @ [CHR 0x0A] @ strategies_summary @ [CHR 0x0A, CHR 0x0A] @
     ''- Execution plan:'' @ [CHR 0x0A] @ execution_plan @ [CHR 0x0A, CHR 0x0A] @
     ''Identify misalignments, key risks, and actionable mitigations. '' @
     ''End with: '' @ [CHR 0x22] @
     ''This risk assessment is for educational purposes only and does not constitute financial advice.''
     @ [CHR 0x22]"

definition risk_assessor_tool ::
    "'s agents \<Rightarrow> string \<Rightarrow> string \<Rightarrow> string \<Rightarrow> string \<Rightarrow> 's \<Rightarrow> (exn + string) \<times> 's" where
  "risk_assessor_tool ags ticker market_summary strategies_summary execution_plan s =
     invoke_agent (risk_assessor ags)
       (risk_assessor_prompt ticker market_summary strategies_summary execution_plan)
       TOKEN_CAP s"

subsection \<open>\<^verbatim>\<open>FinancialAdvisorOrchestrator\<close>\<close>

definition get_market_analysis ::
    "'s agents \<Rightarrow> string \<Rightarrow> int \<Rightarrow> 's \<Rightarrow> (exn + string) \<times> 's" where
  "get_market_analysis ags ticker lookback_days s = market_intel_tool ags ticker lookback_days s"

definition get_strategies ::
    "'s agents \<Rightarrow> string \<Rightarrow> string \<Rightarrow> string \<Rightarrow> 's \<Rightarrow> (exn + string) \<times> 's" where
  "get_strategies ags ticker risk_attitude horizon s =
     strategy_architect_tool ags ticker risk_attitude horizon s"

definition get_execution_plan ::
    "'s agents \<Rightarrow> string \<Rightarrow> string \<Rightarrow> 's \<Rightarrow> (exn + string) \<times> 's" where
  "get_execution_plan ags ticker strategy_summary s =
     execution_planner_tool ags ticker strategy_summary s"

definition get_risk_assessment ::
    "'s agents \<Rightarrow> string \<Rightarrow> string \<Rightarrow> string \<Rightarrow> string \<Rightarrow> 's \<Rightarrow> (exn + string) \<times> 's" where
  "get_risk_assessment ags ticker market_summary strategies_summary execution_plan s =
     risk_assessor_tool ags ticker market_summary strategies_summary execution_plan s"

text \<open>
  \<^verbatim>\<open>
  def run_complete_analysis(self, ticker, risk_attitude="Moderate",
                            horizon="Medium-term", lookback_days=7):
      market_analysis = self.get_market_analysis(ticker, lookback_days)
      strategies = self.get_strategies(ticker, risk_attitude, horizon)
      execution_plan = self.get_execution_plan(ticker, strategies[:2000])
      risk_assessment = self.get_risk_assessment(
          ticker=ticker,
          market_summary=market_analysis[:2000],
          strategies_summary=strategies[:2000],
          execution_plan=execution_plan[:2000])
      return {"ticker": ticker, "risk_attitude": risk_attitude, "horizon": horizon,
              "market_analysis": market_analysis, "strategies": strategies,
              "execution_plan": execution_plan, "risk_assessment": risk_assessment}
  \<close>
  The slice \<^verbatim>\<open>x[:2000]\<close> is \<open>take 2000 x\<close>; an exception leaving a step would
  leave the whole function.
\<close>

definition run_complete_analysis ::
    "'s agents \<Rightarrow> string \<Rightarrow> string \<Rightarrow> string \<Rightarrow> int \<Rightarrow> 's \<Rightarrow> (exn + pyval) \<times> 's" where
  "run_complete_analysis ags ticker risk_attitude horizon lookback_days s =
     (case get_market_analysis ags ticker lookback_days s of
        (Inl e, s1) \<Rightarrow> (Inl e, s1)
      | (Inr market_analysis, s1) \<Rightarrow>
     (case get_strategies ags ticker risk_attitude horizon s1 of
        (Inl e, s2) \<Rightarrow> (Inl e, s2)
      | (Inr strategies, s2) \<Rightarrow>
     (case get_execution_plan ags ticker (take 2000 strategies) s2 of
        (Inl e, s3) \<Rightarrow> (Inl e, s3)
      | (Inr execution_plan, s3) \<Rightarrow>
     (case get_risk_assessment ags ticker (take 2000 market_analysis) (take 2000 strategies)
             (take 2000 execution_plan) s3 of
        (Inl e, s4) \<Rightarrow> (Inl e, s4)
      | (Inr risk_assessment, s4) \<Rightarrow>
          (Inr (PDict
             [(''ticker'', PStr ticker),
              (''risk_attitude'', PStr risk_attitude),
              (''horizon'', PStr horizon),
              (''market_analysis'', PStr market_analysis),
              (''strategies'', PStr strategies),
              (''execution_plan'', PStr execution_plan),
              (''risk_assessment'', PStr risk_assessment)]), s4)))))"

section \<open>Observing the calls\<close>

text \<open>
  To state which calls a function makes and in what order, an agent is wrapped so that
  it appends every call it receives, with the outcome it gave, to a log carried in the
  state. The functions above do not know the state type, so what they do with wrapped
  agents is what they do with any agents.
\<close>

datatype agent_name = MarketIntelligence | StrategyArchitect | ExecutionPlanner | RiskAssessor

record call =
  callee :: agent_name
  call_prompt :: string
  call_kwargs :: kwargs
  call_outcome :: "exn + string"

definition logged :: "agent_name \<Rightarrow> 's agent \<Rightarrow> ('s \<times> call list) agent" where
  "logged name agent =
     (\<lambda>(s, log) prompt kwargs.
        case agent s prompt kwargs of
          (outcome, s') \<Rightarrow>
            (outcome,
             (s', log @ [\<lparr>callee = name, call_prompt = prompt, call_kwargs = kwargs,
                          call_outcome = outcome\<rparr>])))"

definition logged_agents :: "'s agents \<Rightarrow> ('s \<times> call list) agents" where
  "logged_agents ags =
     \<lparr>market_intelligence = logged MarketIntelligence (market_intelligence ags),
      strategy_architect = logged StrategyArchitect (strategy_architect ags),
      execution_planner = logged ExecutionPlanner (execution_planner ags),
      risk_assessor = logged RiskAssessor (risk_assessor ags)\<rparr>"

text \<open>How \<^verbatim>\<open>invoke_agent\<close> turns the outcome of a call into its own result.\<close>

fun rendered :: "string \<Rightarrow> exn + string \<Rightarrow> string" where
  "rendered label (Inr text) = text"
| "rendered label (Inl e) = label @ msg e"

definition raised_TypeError :: "exn + string \<Rightarrow> bool" where
  "raised_TypeError outcome = (case outcome of Inl e \<Rightarrow> isinstance e TypeError | Inr text \<Rightarrow> False)"

text \<open>
  The text one call of \<^verbatim>\<open>invoke_agent\<close> hands back, read off the calls it made: the
  outcome of the last call, labelled as a failure of the loop when at most four calls were
  made and as a failure of the final call otherwise.
\<close>

definition stage_output :: "call list \<Rightarrow> string" where
  "stage_output calls =
     rendered (if length calls \<le> 4 then ''Agent invocation error: ''
               else ''Agent invocation error (no-kwargs): '')
       (call_outcome (last calls))"

text \<open>The calls in a log that went to one agent, in order.\<close>

definition calls_of :: "agent_name \<Rightarrow> call list \<Rightarrow> call list" where
  "calls_of name log = filter (\<lambda>c. callee c = name) log"

text \<open>The dictionary \<^verbatim>\<open>run_complete_analysis\<close> returns, as a function of its seven values.\<close>

definition analysis_results ::
    "string \<Rightarrow> string \<Rightarrow> string \<Rightarrow> string \<Rightarrow> string \<Rightarrow> string \<Rightarrow> string \<Rightarrow> pyval" where
  "analysis_results ticker risk_attitude horizon market_analysis strategies execution_plan
       risk_assessment =
     PDict
       [(''ticker'', PStr ticker),
        (''risk_attitude'', PStr risk_attitude),
        (''horizon'', PStr horizon),
        (''market_analysis'', PStr market_analysis),
        (''strategies'', PStr strategies),
        (''execution_plan'', PStr execution_plan),
        (''risk_assessment'', PStr risk_assessment)]"

section \<open>The properties in the words of the specification\<close>

text \<open>
  A prefix cut to a budget of \<open>n\<close> characters: the text passed on is no longer than
  \<open>n\<close>, it is the first \<open>n\<close> characters of the original when the original is
  longer, and it is the original otherwise.
\<close>

definition prefix_cut :: "nat \<Rightarrow> string \<Rightarrow> string \<Rightarrow> bool" where
  "prefix_cut n passed original =
     (length passed \<le> n \<and> prefix passed original
      \<and> (n < length original \<longrightarrow> length passed = n)
      \<and> (length original \<le> n \<longrightarrow> passed = original))"

text \<open>
  The prompts the boundary lets through: non-empty after trimming, at most 5000
  characters after trimming, and free of the deny-listed substrings once trimmed and
  lower-cased. \<open>accepted_query\<close> gives the query a payload is accepted with.
\<close>

definition acceptable :: "string \<Rightarrow> bool" where
  "acceptable text =
     (strip text \<noteq> [] \<and> length (strip text) \<le> 5000
      \<and> \<not> list_ex (\<lambda>pattern. py_in pattern (lower (strip text))) suspicious_patterns)"

definition accepted_query :: "pyval \<Rightarrow> string option" where
  "accepted_query payload =
     (case payload of
        PDict kvs \<Rightarrow>
          (case dict_get kvs ''prompt'' (PStr '''') of
             PStr text \<Rightarrow> if acceptable text then Some (strip text) else None
           | other \<Rightarrow> None)
      | other \<Rightarrow> None)"

section \<open>Capabilities for concrete runs\<close>

text \<open>
  Stand-ins for the model and the search engine. Their state counts the calls received.
  \<^item> \<open>keyword_rejecting_agent\<close> raises \<^verbatim>\<open>TypeError\<close> for every call with keyword
    arguments and answers the call without any.
  \<^item> \<open>failing_agent\<close> raises \<^verbatim>\<open>TypeError\<close> on the first call it ever receives and
    \<^verbatim>\<open>ConnectionError\<close> on every later one.
  \<^item> \<open>verbose_agent\<close> always answers with 2500 characters.
  \<^item> \<open>fixed_search outcome\<close> always ends with \<open>outcome\<close>.
\<close>

definition keyword_rejecting_agent :: "nat agent" where
  "keyword_rejecting_agent =
     (\<lambda>s prompt kwargs.
        if kwargs = [] then (Inr ''analysis text'', s + 1)
        else (Inl (Exn TypeError ''unexpected keyword argument''), s + 1))"

definition failing_agent :: "nat agent" where
  "failing_agent =
     (\<lambda>s prompt kwargs.
        if s = 0 then (Inl (Exn TypeError ''unexpected keyword argument''), s + 1)
        else (Inl (Exn ConnectionError ''model endpoint unreachable''), s + 1))"

definition verbose_agent :: "nat agent" where
  "verbose_agent = (\<lambda>s prompt kwargs. (Inr (replicate 2500 CHR ''x''), s + 1))"

definition all_agents :: "'s agent \<Rightarrow> 's agents" where
  "all_agents agent =
     \<lparr>market_intelligence = agent, strategy_architect = agent,
      execution_planner = agent, risk_assessor = agent\<rparr>"

definition fixed_search :: "exn + pyval list \<Rightarrow> nat search" where
  "fixed_search outcome = (\<lambda>s keywords region max_results. (outcome, s + 1))"

section \<open>Calls and their log\<close>

lemma isinstance_Exception: "isinstance e Exception"
  by (simp add: isinstance_def)

lemma logged_apply:
  "logged nm agent (s, log) prompt kw =
     (fst (agent s prompt kw),
      (snd (agent s prompt kw),
       log @ [\<lparr>callee = nm, call_prompt = prompt, call_kwargs = kw,
               call_outcome = fst (agent s prompt kw)\<rparr>]))"
  by (simp add: logged_def split: prod.splits)

lemma invoke_agent_loop_logged:
  assumes "invoke_agent_loop (logged nm agent) prompt kws (s, log) = (res, (s', log'))"
  shows "\<exists>calls. log' = log @ calls
        \<and> map call_kwargs calls = take (length calls) kws
        \<and> (\<forall>c\<in>set calls. callee c = nm \<and> call_prompt c = prompt)
        \<and> (case res of
             None \<Rightarrow> length calls = length kws \<and> (\<forall>c\<in>set calls. raised_TypeError (call_outcome c))
           | Some r \<Rightarrow> calls \<noteq> [] \<and> (\<forall>c\<in>set (butlast calls). raised_TypeError (call_outcome c))
               \<and> \<not> raised_TypeError (call_outcome (last calls))
               \<and> r = Inr (rendered ''Agent invocation error: '' (call_outcome (last calls))))
        \<and> invoke_agent_loop agent prompt kws s = (res, s')"
  using assms
proof (induction kws arbitrary: s log)
  case Nil
  then show ?case by simp
next
  case (Cons kw kws)
  obtain out s1 where a: "agent s prompt kw = (out, s1)" by (cases "agent s prompt kw")
  let ?c = "\<lparr>callee = nm, call_prompt = prompt, call_kwargs = kw, call_outcome = out\<rparr>"
  show ?case
  proof (cases "raised_TypeError out")
    case True
    then obtain e where out: "out = Inl e" and te: "isinstance e TypeError"
      by (auto simp: raised_TypeError_def split: sum.splits)
    from Cons.prems a out te
    have "invoke_agent_loop (logged nm agent) prompt kws (s1, log @ [?c]) = (res, (s', log'))"
      by (simp add: logged_apply)
    from Cons.IH [OF this] obtain calls where
      c: "log' = (log @ [?c]) @ calls"
         "map call_kwargs calls = take (length calls) kws"
         "\<forall>c\<in>set calls. callee c = nm \<and> call_prompt c = prompt"
         "case res of
             None \<Rightarrow> length calls = length kws \<and> (\<forall>c\<in>set calls. raised_TypeError (call_outcome c))
           | Some r \<Rightarrow> calls \<noteq> [] \<and> (\<forall>c\<in>set (butlast calls). raised_TypeError (call_outcome c))
               \<and> \<not> raised_TypeError (call_outcome (last calls))
               \<and> r = Inr (rendered ''Agent invocation error: '' (call_outcome (last calls)))"
         "invoke_agent_loop agent prompt kws s1 = (res, s')"
      by blast
    show ?thesis
    proof (intro exI [of _ "?c # calls"] conjI)
      show "log' = log @ ?c # calls" using c(1) by simp
      show "map call_kwargs (?c # calls) = take (length (?c # calls)) (kw # kws)"
        using c(2) by simp
      show "\<forall>c\<in>set (?c # calls). callee c = nm \<and> call_prompt c = prompt"
        using c(3) by simp
      show "invoke_agent_loop agent prompt (kw # kws) s = (res, s')"
        using c(5) a out te by simp
      show "case res of
             None \<Rightarrow> length (?c # calls) = length (kw # kws)
                  \<and> (\<forall>c\<in>set (?c # calls). raised_TypeError (call_outcome c))
           | Some r \<Rightarrow> ?c # calls \<noteq> []
               \<and> (\<forall>c\<in>set (butlast (?c # calls)). raised_TypeError (call_outcome c))
               \<and> \<not> raised_TypeError (call_outcome (last (?c # calls)))
               \<and> r = Inr (rendered ''Agent invocation error: '' (call_outcome (last (?c # calls))))"
        using c(4) True by (cases res) auto
    qed
  next
    case False
    from False Cons.prems a
    have r: "res = Some (Inr (rendered ''Agent invocation error: '' out))"
      and s: "s' = s1" and l: "log' = log @ [?c]"
      by (auto simp: logged_apply raised_TypeError_def isinstance_Exception split: sum.splits)
    show ?thesis
      using False a r s l
      by (intro exI [of _ "[?c]"])
         (auto simp: raised_TypeError_def isinstance_Exception split: sum.splits)
  qed
qed


lemma length_kwargs_variants: "length (kwargs_variants n) = 4"
  by (simp add: kwargs_variants_def)

lemma invoke_agent_logged:
  assumes "invoke_agent (logged nm agent) prompt n (s, log) = (r, (s', log'))"
  shows "\<exists>calls. log' = log @ calls \<and> calls \<noteq> []
        \<and> map call_kwargs calls = take (length calls) (kwargs_variants n @ [[]])
        \<and> (\<forall>c\<in>set calls. callee c = nm \<and> call_prompt c = prompt)
        \<and> (\<forall>c\<in>set (butlast calls). raised_TypeError (call_outcome c))
        \<and> (length calls \<le> 4 \<longrightarrow> \<not> raised_TypeError (call_outcome (last calls))
              \<and> r = Inr (rendered ''Agent invocation error: '' (call_outcome (last calls))))
        \<and> (4 < length calls \<longrightarrow>
              r = Inr (rendered ''Agent invocation error (no-kwargs): ''
                         (call_outcome (last calls))))
        \<and> invoke_agent agent prompt n s = (r, s')"
proof -
  obtain res s1 log1 where
    loop: "invoke_agent_loop (logged nm agent) prompt (kwargs_variants n) (s, log)
             = (res, (s1, log1))"
    by (metis surj_pair)
  from invoke_agent_loop_logged [OF loop] obtain calls where
    c: "log1 = log @ calls"
       "map call_kwargs calls = take (length calls) (kwargs_variants n)"
       "\<forall>c\<in>set calls. callee c = nm \<and> call_prompt c = prompt"
       "case res of
          None \<Rightarrow> length calls = length (kwargs_variants n)
               \<and> (\<forall>c\<in>set calls. raised_TypeError (call_outcome c))
        | Some r \<Rightarrow> calls \<noteq> [] \<and> (\<forall>c\<in>set (butlast calls). raised_TypeError (call_outcome c))
               \<and> \<not> raised_TypeError (call_outcome (last calls))
               \<and> r = Inr (rendered ''Agent invocation error: '' (call_outcome (last calls)))"
       "invoke_agent_loop agent prompt (kwargs_variants n) s = (res, s1)"
    by blast
  have len: "length calls \<le> 4"
    using arg_cong [OF c(2), of length] by (simp add: length_kwargs_variants)
  show ?thesis
  proof (cases res)
    case (Some r0)
    with assms loop have "r = r0" "s' = s1" "log' = log1"
      by (simp_all add: invoke_agent_def)
    with Some c len show ?thesis
      by (intro exI [of _ calls]) (simp add: invoke_agent_def length_kwargs_variants)
  next
    case None
    obtain out s2 where a: "agent s1 prompt [] = (out, s2)" by (cases "agent s1 prompt []")
    let ?c = "\<lparr>callee = nm, call_prompt = prompt, call_kwargs = [], call_outcome = out\<rparr>"
    from None assms loop a
    have r: "r = Inr (rendered ''Agent invocation error (no-kwargs): '' out)"
      and s: "s' = s2" and l: "log' = log1 @ [?c]"
      by (auto simp: invoke_agent_def logged_apply isinstance_Exception split: sum.splits)
    from None c(4) have full: "length calls = 4" and te: "\<forall>c\<in>set calls. raised_TypeError (call_outcome c)"
      by (simp_all add: length_kwargs_variants)
    show ?thesis
    proof (intro exI [of _ "calls @ [?c]"] conjI)
      show "log' = log @ calls @ [?c]" using l c(1) by simp
      show "calls @ [?c] \<noteq> []" by simp
      show "map call_kwargs (calls @ [?c])
              = take (length (calls @ [?c])) (kwargs_variants n @ [[]])"
        using c(2) full by (simp add: length_kwargs_variants)
      show "\<forall>c\<in>set (calls @ [?c]). callee c = nm \<and> call_prompt c = prompt"
        using c(3) by simp
      show "\<forall>c\<in>set (butlast (calls @ [?c])). raised_TypeError (call_outcome c)"
        using te by simp
      show "length (calls @ [?c]) \<le> 4 \<longrightarrow>
              \<not> raised_TypeError (call_outcome (last (calls @ [?c])))
              \<and> r = Inr (rendered ''Agent invocation error: ''
                           (call_outcome (last (calls @ [?c]))))"
        using full by simp
      show "4 < length (calls @ [?c]) \<longrightarrow>
              r = Inr (rendered ''Agent invocation error (no-kwargs): ''
                         (call_outcome (last (calls @ [?c]))))"
        using r by simp
      show "invoke_agent agent prompt n s = (r, s')"
        using c(5) None a r s
        by (auto simp: invoke_agent_def isinstance_Exception split: sum.splits)
    qed
  qed
qed

section \<open>Properties of \<^verbatim>\<open>invoke_agent\<close>\<close>

text \<open>
  C1. Run on any agent, for any prompt and token budget, \<^verbatim>\<open>invoke_agent\<close> makes its
  calls in the fixed order \<^verbatim>\<open>max_output_tokens\<close>, \<^verbatim>\<open>max_tokens\<close>,
  \<^verbatim>\<open>generation_config\<close>, \<^verbatim>\<open>inference_params\<close>, then no keyword arguments: the
  calls logged are a non-empty initial part of that list of five, all with the prompt
  given. Every call but the last raised \<^verbatim>\<open>TypeError\<close>. When at most four calls were
  made, the last one did not raise \<^verbatim>\<open>TypeError\<close>, and the result is its text or its
  failure rendered as \<open>Agent invocation error: ...\<close>, with no further call. When all
  four keyed calls raised \<^verbatim>\<open>TypeError\<close> there is exactly one more call, without
  keyword arguments, and the result is its text (or its failure rendered as text). The
  result and final state are those of the same run without the log.
\<close>

theorem invoke_agent_variant_order:
  assumes "invoke_agent (logged nm agent) prompt max_tokens (s, []) = (r, (s', calls))"
  shows "calls \<noteq> []
     \<and> map call_kwargs calls = take (length calls) (kwargs_variants max_tokens @ [[]])
     \<and> map (map fst) (kwargs_variants max_tokens) =
         [[''max_output_tokens''], [''max_tokens''], [''generation_config''],
          [''inference_params'']]
     \<and> (\<forall>c\<in>set calls. call_prompt c = prompt)
     \<and> (\<forall>c\<in>set (butlast calls). raised_TypeError (call_outcome c))
     \<and> (length calls \<le> 4 \<longrightarrow>
           \<not> raised_TypeError (call_outcome (last calls))
           \<and> r = Inr (rendered ''Agent invocation error: '' (call_outcome (last calls))))
     \<and> (4 < length calls \<longrightarrow>
           r = Inr (rendered ''Agent invocation error (no-kwargs): ''
                      (call_outcome (last calls))))
     \<and> invoke_agent agent prompt max_tokens s = (r, s')"
proof -
  from invoke_agent_logged [OF assms] obtain cs where
    "calls = [] @ cs" and rest: "cs \<noteq> []"
      "map call_kwargs cs = take (length cs) (kwargs_variants max_tokens @ [[]])"
      "\<forall>c\<in>set cs. callee c = nm \<and> call_prompt c = prompt"
      "\<forall>c\<in>set (butlast cs). raised_TypeError (call_outcome c)"
      "length cs \<le> 4 \<longrightarrow> \<not> raised_TypeError (call_outcome (last cs))
         \<and> r = Inr (rendered ''Agent invocation error: '' (call_outcome (last cs)))"
      "4 < length cs \<longrightarrow>
         r = Inr (rendered ''Agent invocation error (no-kwargs): '' (call_outcome (last cs)))"
      "invoke_agent agent prompt max_tokens s = (r, s')"
    by blast
  then have "cs = calls" by simp
  with rest show ?thesis by (simp add: kwargs_variants_def)
qed

text \<open>
  Two runs: an agent that rejects every keyword and answers the bare call, and an agent
  whose second call fails for another reason.
\<close>

lemma keyword_rejecting_run:
  "invoke_agent (logged RiskAssessor keyword_rejecting_agent) ''Evaluate'' 2000 (0, [])
         = (Inr ''analysis text'',
            (5,
             [\<lparr>callee = RiskAssessor, call_prompt = ''Evaluate'',
               call_kwargs = [(''max_output_tokens'', PInt 2000)],
               call_outcome = Inl (Exn TypeError ''unexpected keyword argument'')\<rparr>,
              \<lparr>callee = RiskAssessor, call_prompt = ''Evaluate'',
               call_kwargs = [(''max_tokens'', PInt 2000)],
               call_outcome = Inl (Exn TypeError ''unexpected keyword argument'')\<rparr>,
              \<lparr>callee = RiskAssessor, call_prompt = ''Evaluate'',
               call_kwargs =
                 [(''generation_config'', PDict [(''max_output_tokens'', PInt 2000)])],
               call_outcome = Inl (Exn TypeError ''unexpected keyword argument'')\<rparr>,
              \<lparr>callee = RiskAssessor, call_prompt = ''Evaluate'',
               call_kwargs =
                 [(''inference_params'', PDict [(''max_tokens'', PInt 2000)])],
               call_outcome = Inl (Exn TypeError ''unexpected keyword argument'')\<rparr>,
              \<lparr>callee = RiskAssessor, call_prompt = ''Evaluate'',
               call_kwargs = [],
               call_outcome = Inr ''analysis text''\<rparr>]))"
    by (simp add: invoke_agent_def kwargs_variants_def logged_def keyword_rejecting_agent_def
        isinstance_def)

lemma failing_run:
  "invoke_agent (logged RiskAssessor failing_agent) ''Evaluate'' 2000 (0, [])
         = (Inr ''Agent invocation error: model endpoint unreachable'',
            (2,
             [\<lparr>callee = RiskAssessor, call_prompt = ''Evaluate'',
               call_kwargs = [(''max_output_tokens'', PInt 2000)],
               call_outcome = Inl (Exn TypeError ''unexpected keyword argument'')\<rparr>,
              \<lparr>callee = RiskAssessor, call_prompt = ''Evaluate'',
               call_kwargs = [(''max_tokens'', PInt 2000)],
               call_outcome = Inl (Exn ConnectionError ''model endpoint unreachable'')\<rparr>]))"
    by (simp add: invoke_agent_def kwargs_variants_def logged_def failing_agent_def
        isinstance_def)

theorem invoke_agent_variant_order_witness:
  "invoke_agent keyword_rejecting_agent ''Evaluate'' 2000 0 = (Inr ''analysis text'', 5)
   \<and> invoke_agent failing_agent ''Evaluate'' 2000 0
       = (Inr ''Agent invocation error: model endpoint unreachable'', 2)"
  using invoke_agent_variant_order [OF keyword_rejecting_run]
    invoke_agent_variant_order [OF failing_run]
  by simp

lemma invoke_agent_loop_text:
  assumes "invoke_agent_loop agent prompt kws s = (Some r, s')"
  shows "\<exists>reply. r = Inr reply
          \<and> ((\<exists>s0 kw. fst (agent s0 prompt kw) = Inr reply)
             \<or> (\<exists>s0 kw e. fst (agent s0 prompt kw) = Inl e
                   \<and> reply = ''Agent invocation error: '' @ msg e))"
  using assms
proof (induction kws arbitrary: s)
  case Nil
  then show ?case by simp
next
  case (Cons kw kws)
  obtain out s1 where a: "agent s prompt kw = (out, s1)" by (cases "agent s prompt kw")
  show ?case
  proof (cases out)
    case (Inr reply)
    with Cons.prems a have "r = Inr reply" by simp
    moreover from a Inr have "fst (agent s prompt kw) = Inr reply" by simp
    ultimately show ?thesis by blast
  next
    case (Inl e)
    show ?thesis
    proof (cases "isinstance e TypeError")
      case True
      with Cons.prems a Inl have "invoke_agent_loop agent prompt kws s1 = (Some r, s')"
        by simp
      from Cons.IH [OF this] show ?thesis .
    next
      case False
      with Cons.prems a Inl have "r = Inr (''Agent invocation error: '' @ msg e)"
        by (simp add: isinstance_Exception)
      moreover from a Inl have "fst (agent s prompt kw) = Inl e" by simp
      ultimately show ?thesis by blast
    qed
  qed
qed

text \<open>
  C2. \<^verbatim>\<open>invoke_agent\<close> never raises: whatever the agent does on each call, the result
  is a text, and that text is either what some call of the agent with this prompt
  returned or one of the two failure messages built from the exception some call raised.
\<close>

theorem invoke_agent_never_raises:
  "\<exists>reply. fst (invoke_agent agent prompt max_tokens s) = Inr reply
     \<and> ((\<exists>s0 kw. fst (agent s0 prompt kw) = Inr reply)
        \<or> (\<exists>s0 kw e. fst (agent s0 prompt kw) = Inl e
              \<and> (reply = ''Agent invocation error: '' @ msg e
                 \<or> reply = ''Agent invocation error (no-kwargs): '' @ msg e)))"
proof -
  obtain res s1 where
    loop: "invoke_agent_loop agent prompt (kwargs_variants max_tokens) s = (res, s1)"
    by (cases "invoke_agent_loop agent prompt (kwargs_variants max_tokens) s")
  show ?thesis
  proof (cases res)
    case (Some r)
    with loop have eq: "fst (invoke_agent agent prompt max_tokens s) = r"
      by (simp add: invoke_agent_def)
    from loop Some have "invoke_agent_loop agent prompt (kwargs_variants max_tokens) s
        = (Some r, s1)" by simp
    from invoke_agent_loop_text [OF this] eq show ?thesis by metis
  next
    case None
    obtain out s2 where a: "agent s1 prompt [] = (out, s2)" by (cases "agent s1 prompt []")
    show ?thesis
    proof (cases out)
      case (Inr reply)
      with None loop a have "fst (invoke_agent agent prompt max_tokens s) = Inr reply"
        by (simp add: invoke_agent_def)
      moreover from a Inr have "fst (agent s1 prompt []) = Inr reply" by simp
      ultimately show ?thesis by blast
    next
      case (Inl e)
      with None loop a have "fst (invoke_agent agent prompt max_tokens s)
          = Inr (''Agent invocation error (no-kwargs): '' @ msg e)"
        by (simp add: invoke_agent_def isinstance_Exception)
      moreover from a Inl have "fst (agent s1 prompt []) = Inl e" by simp
      ultimately show ?thesis by blast
    qed
  qed
qed

section \<open>Properties of \<^verbatim>\<open>websearch\<close>\<close>

text \<open>
  C5. \<^verbatim>\<open>websearch\<close> never raises and calls the search capability exactly once, with no
  retry. A rate-limit failure gives the fixed advice to try again after a short delay, a
  provider failure gives a text with the provider's detail, any other exception gives a
  generic text with the exception's description, and an empty result list gives the
  text \<open>No results found.\<close> instead of an empty collection. The three failure texts
  are pairwise different and non-empty, whatever the details.
\<close>

theorem websearch_never_raises:
  "(\<exists>v. fst (websearch search keywords region max_results s) = Inr v)
   \<and> snd (websearch search keywords region max_results s)
       = snd (search s keywords region max_results)
   \<and> (\<forall>e. fst (search s keywords region max_results) = Inl e
          \<and> isinstance e RatelimitException \<longrightarrow>
        fst (websearch search keywords region max_results s)
          = Inr (PStr ''RatelimitException: Please try again after a short delay.''))
   \<and> (\<forall>e. fst (search s keywords region max_results) = Inl e
          \<and> \<not> isinstance e RatelimitException
          \<and> isinstance e DuckDuckGoSearchException \<longrightarrow>
        fst (websearch search keywords region max_results s)
          = Inr (PStr (''DuckDuckGoSearchException: '' @ msg e)))
   \<and> (\<forall>e. fst (search s keywords region max_results) = Inl e
          \<and> \<not> isinstance e DuckDuckGoSearchException \<longrightarrow>
        fst (websearch search keywords region max_results s)
          = Inr (PStr (''Exception: '' @ msg e)))
   \<and> (fst (search s keywords region max_results) = Inr [] \<longrightarrow>
        fst (websearch search keywords region max_results s)
          = Inr (PStr ''No results found.''))
   \<and> (\<forall>d e.
         distinct
           [''RatelimitException: Please try again after a short delay.'',
            ''DuckDuckGoSearchException: '' @ d,
            ''Exception: '' @ e]
         \<and> ''RatelimitException: Please try again after a short delay.'' \<noteq> []
         \<and> ''DuckDuckGoSearchException: '' @ d \<noteq> []
         \<and> ''Exception: '' @ e \<noteq> [])"
proof -
  obtain out s1 where a: "search s keywords region max_results = (out, s1)"
    by (cases "search s keywords region max_results")
  have sub: "isinstance e RatelimitException \<Longrightarrow> isinstance e DuckDuckGoSearchException"
    for e by (cases e) (auto simp: isinstance_def elim: issubclass.elims)
  show ?thesis
  proof (cases out)
    case (Inl e)
    with a sub [of e] show ?thesis
      by (auto simp: websearch_def isinstance_Exception)
  next
    case (Inr results)
    with a show ?thesis
      by (auto simp: websearch_def)
  qed
qed

theorem websearch_never_raises_witness:
  "fst (websearch (fixed_search (Inl (Exn RatelimitException ''202 Ratelimit''))) ''AAPL news''
          ''us-en'' None 0)
     = Inr (PStr ''RatelimitException: Please try again after a short delay.'')
   \<and> fst (websearch (fixed_search (Inl (Exn DuckDuckGoSearchException ''bad gateway'')))
          ''AAPL news'' ''us-en'' None 0)
     = Inr (PStr ''DuckDuckGoSearchException: bad gateway'')
   \<and> fst (websearch (fixed_search (Inl (Exn (OtherClass ''RuntimeError'') ''no network'')))
          ''AAPL news'' ''us-en'' None 0)
     = Inr (PStr ''Exception: no network'')
   \<and> fst (websearch (fixed_search (Inr [])) ''AAPL news'' ''us-en'' (Some 5) 0)
     = Inr (PStr ''No results found.'')"
  using
    websearch_never_raises [of "fixed_search (Inl (Exn RatelimitException ''202 Ratelimit''))"
      "''AAPL news''" "''us-en''" None 0]
    websearch_never_raises [of "fixed_search (Inl (Exn DuckDuckGoSearchException ''bad gateway''))"
      "''AAPL news''" "''us-en''" None 0]
    websearch_never_raises [of "fixed_search (Inl (Exn (OtherClass ''RuntimeError'') ''no network''))"
      "''AAPL news''" "''us-en''" None 0]
    websearch_never_raises [of "fixed_search (Inr [])" "''AAPL news''" "''us-en''" "Some 5" 0]
  by (simp add: fixed_search_def isinstance_def)

text \<open>
  C8. When the search succeeds with a non-empty result list, \<^verbatim>\<open>websearch\<close> returns that
  list of records unchanged, which is not a string; a string comes back only from the
  empty-result branch and the failure branches.
\<close>

theorem websearch_returns_raw_results:
  "(\<forall>results. fst (search s keywords region max_results) = Inr results \<and> results \<noteq> [] \<longrightarrow>
       fst (websearch search keywords region max_results s) = Inr (PList results)
       \<and> (\<forall>t. PList results \<noteq> PStr t))
   \<and> (\<forall>t. fst (websearch search keywords region max_results s) = Inr (PStr t) \<longrightarrow>
       fst (search s keywords region max_results) = Inr []
       \<or> (\<exists>e. fst (search s keywords region max_results) = Inl e))"
proof -
  obtain out s1 where a: "search s keywords region max_results = (out, s1)"
    by (cases "search s keywords region max_results")
  then show ?thesis
    by (cases out) (auto simp: websearch_def split: if_splits)
qed

theorem websearch_returns_raw_results_witness:
  "fst (websearch
         (fixed_search (Inr [PDict [(''title'', PStr ''Apple 10-K''),
                                    (''href'', PStr ''https://www.sec.gov/''),
                                    (''body'', PStr ''Annual report'')]]))
         ''AAPL filings'' ''us-en'' (Some 1) 0)
   = Inr (PList [PDict [(''title'', PStr ''Apple 10-K''),
                        (''href'', PStr ''https://www.sec.gov/''),
                        (''body'', PStr ''Annual report'')]])"
  using websearch_returns_raw_results
    [of "fixed_search (Inr [PDict [(''title'', PStr ''Apple 10-K''),
                                    (''href'', PStr ''https://www.sec.gov/''),
                                    (''body'', PStr ''Annual report'')]])"
        0 "''AAPL filings''" "''us-en''" "Some 1"]
  by (simp add: fixed_search_def)

section \<open>The calls of the pipeline\<close>

lemma invoke_agent_stage:
  assumes "invoke_agent (logged nm agent) prompt n (s, log) = (r, (s', log'))"
  shows "\<exists>calls. r = Inr (stage_output calls) \<and> log' = log @ calls \<and> calls \<noteq> []
          \<and> (\<forall>c\<in>set calls. callee c = nm \<and> call_prompt c = prompt)
          \<and> invoke_agent agent prompt n s = (r, s')"
proof -
  from invoke_agent_logged [OF assms] obtain calls where
    c: "log' = log @ calls" "calls \<noteq> []"
      "\<forall>c\<in>set calls. callee c = nm \<and> call_prompt c = prompt"
      "length calls \<le> 4 \<longrightarrow> \<not> raised_TypeError (call_outcome (last calls))
         \<and> r = Inr (rendered ''Agent invocation error: '' (call_outcome (last calls)))"
      "4 < length calls \<longrightarrow>
         r = Inr (rendered ''Agent invocation error (no-kwargs): ''
                    (call_outcome (last calls)))"
      "invoke_agent agent prompt n s = (r, s')"
    by blast
  from c(4,5) have "r = Inr (stage_output calls)"
    by (cases "length calls \<le> 4") (simp_all add: stage_output_def)
  with c show ?thesis by blast
qed

lemma get_market_analysis_logged:
  assumes "get_market_analysis (logged_agents ags) ticker lookback_days (s, log)
             = (r, (s', log'))"
  shows "\<exists>calls. r = Inr (stage_output calls) \<and> log' = log @ calls \<and> calls \<noteq> []
          \<and> (\<forall>c\<in>set calls. callee c = MarketIntelligence
                \<and> call_prompt c = market_intel_prompt ticker lookback_days)
          \<and> get_market_analysis ags ticker lookback_days s = (r, s')"
  using assms invoke_agent_stage [of MarketIntelligence "market_intelligence ags"
      "market_intel_prompt ticker lookback_days" TOKEN_CAP s log r s' log']
  by (simp add: get_market_analysis_def market_intel_tool_def logged_agents_def)

lemma get_strategies_logged:
  assumes "get_strategies (logged_agents ags) ticker risk_attitude horizon (s, log)
             = (r, (s', log'))"
  shows "\<exists>calls. r = Inr (stage_output calls) \<and> log' = log @ calls \<and> calls \<noteq> []
          \<and> (\<forall>c\<in>set calls. callee c = StrategyArchitect
                \<and> call_prompt c = strategy_architect_prompt ticker risk_attitude horizon)
          \<and> get_strategies ags ticker risk_attitude horizon s = (r, s')"
  using assms invoke_agent_stage [of StrategyArchitect "strategy_architect ags"
      "strategy_architect_prompt ticker risk_attitude horizon" TOKEN_CAP s log r s' log']
  by (simp add: get_strategies_def strategy_architect_tool_def logged_agents_def)

lemma get_execution_plan_logged:
  assumes "get_execution_plan (logged_agents ags) ticker strategy_summary (s, log)
             = (r, (s', log'))"
  shows "\<exists>calls. r = Inr (stage_output calls) \<and> log' = log @ calls \<and> calls \<noteq> []
          \<and> (\<forall>c\<in>set calls. callee c = ExecutionPlanner
                \<and> call_prompt c = execution_planner_prompt ticker strategy_summary)
          \<and> get_execution_plan ags ticker strategy_summary s = (r, s')"
  using assms invoke_agent_stage [of ExecutionPlanner "execution_planner ags"
      "execution_planner_prompt ticker strategy_summary" TOKEN_CAP s log r s' log']
  by (simp add: get_execution_plan_def execution_planner_tool_def logged_agents_def)

lemma get_risk_assessment_logged:
  assumes "get_risk_assessment (logged_agents ags) ticker m st ex (s, log)
             = (r, (s', log'))"
  shows "\<exists>calls. r = Inr (stage_output calls) \<and> log' = log @ calls \<and> calls \<noteq> []
          \<and> (\<forall>c\<in>set calls. callee c = RiskAssessor
                \<and> call_prompt c = risk_assessor_prompt ticker m st ex)
          \<and> get_risk_assessment ags ticker m st ex s = (r, s')"
  using assms invoke_agent_stage [of RiskAssessor "risk_assessor ags"
      "risk_assessor_prompt ticker m st ex" TOKEN_CAP s log r s' log']
  by (simp add: get_risk_assessment_def risk_assessor_tool_def logged_agents_def)

lemma run_complete_analysis_logged:
  assumes "run_complete_analysis (logged_agents ags) ticker risk_attitude horizon
             lookback_days (s, log) = (r, (s', log'))"
  shows "\<exists>lm ls le lr.
           log' = log @ lm @ ls @ le @ lr
         \<and> lm \<noteq> [] \<and> ls \<noteq> [] \<and> le \<noteq> [] \<and> lr \<noteq> []
         \<and> (\<forall>c\<in>set lm. callee c = MarketIntelligence
               \<and> call_prompt c = market_intel_prompt ticker lookback_days)
         \<and> (\<forall>c\<in>set ls. callee c = StrategyArchitect
               \<and> call_prompt c = strategy_architect_prompt ticker risk_attitude horizon)
         \<and> (\<forall>c\<in>set le. callee c = ExecutionPlanner
               \<and> call_prompt c =
                   execution_planner_prompt ticker (take 2000 (stage_output ls)))
         \<and> (\<forall>c\<in>set lr. callee c = RiskAssessor
               \<and> call_prompt c =
                   risk_assessor_prompt ticker (take 2000 (stage_output lm))
                     (take 2000 (stage_output ls)) (take 2000 (stage_output le)))
         \<and> r = Inr (analysis_results ticker risk_attitude horizon (stage_output lm)
                      (stage_output ls) (stage_output le) (stage_output lr))
         \<and> run_complete_analysis ags ticker risk_attitude horizon lookback_days s = (r, s')"
proof -
  obtain r1 s1 l1 where st1:
    "get_market_analysis (logged_agents ags) ticker lookback_days (s, log) = (r1, (s1, l1))"
    by (metis surj_pair)
  from get_market_analysis_logged [OF st1] obtain lm where
    m: "r1 = Inr (stage_output lm)" "l1 = log @ lm" "lm \<noteq> []"
       "\<forall>c\<in>set lm. callee c = MarketIntelligence
          \<and> call_prompt c = market_intel_prompt ticker lookback_days"
       "get_market_analysis ags ticker lookback_days s = (r1, s1)"
    by blast
  obtain r2 s2 l2 where st2:
    "get_strategies (logged_agents ags) ticker risk_attitude horizon (s1, l1) = (r2, (s2, l2))"
    by (metis surj_pair)
  from get_strategies_logged [OF st2] obtain ls where
    st: "r2 = Inr (stage_output ls)" "l2 = l1 @ ls" "ls \<noteq> []"
       "\<forall>c\<in>set ls. callee c = StrategyArchitect
          \<and> call_prompt c = strategy_architect_prompt ticker risk_attitude horizon"
       "get_strategies ags ticker risk_attitude horizon s1 = (r2, s2)"
    by blast
  obtain r3 s3 l3 where st3:
    "get_execution_plan (logged_agents ags) ticker (take 2000 (stage_output ls)) (s2, l2)
       = (r3, (s3, l3))"
    by (metis surj_pair)
  from get_execution_plan_logged [OF st3] obtain le where
    e: "r3 = Inr (stage_output le)" "l3 = l2 @ le" "le \<noteq> []"
       "\<forall>c\<in>set le. callee c = ExecutionPlanner
          \<and> call_prompt c = execution_planner_prompt ticker (take 2000 (stage_output ls))"
       "get_execution_plan ags ticker (take 2000 (stage_output ls)) s2 = (r3, s3)"
    by blast
  obtain r4 s4 l4 where st4:
    "get_risk_assessment (logged_agents ags) ticker (take 2000 (stage_output lm))
       (take 2000 (stage_output ls)) (take 2000 (stage_output le)) (s3, l3) = (r4, (s4, l4))"
    by (metis surj_pair)
  from get_risk_assessment_logged [OF st4] obtain lr where
    k: "r4 = Inr (stage_output lr)" "l4 = l3 @ lr" "lr \<noteq> []"
       "\<forall>c\<in>set lr. callee c = RiskAssessor
          \<and> call_prompt c = risk_assessor_prompt ticker (take 2000 (stage_output lm))
               (take 2000 (stage_output ls)) (take 2000 (stage_output le))"
       "get_risk_assessment ags ticker (take 2000 (stage_output lm))
          (take 2000 (stage_output ls)) (take 2000 (stage_output le)) s3 = (r4, s4)"
    by blast
  have run: "run_complete_analysis (logged_agents ags) ticker risk_attitude horizon
               lookback_days (s, log)
             = (Inr (analysis_results ticker risk_attitude horizon (stage_output lm)
                  (stage_output ls) (stage_output le) (stage_output lr)), (s4, l4))"
    using st1 st2 st3 st4 m(1) st(1) e(1) k(1)
    by (simp add: run_complete_analysis_def analysis_results_def)
  have plain: "run_complete_analysis ags ticker risk_attitude horizon lookback_days s
             = (Inr (analysis_results ticker risk_attitude horizon (stage_output lm)
                  (stage_output ls) (stage_output le) (stage_output lr)), s4)"
    using m(1,5) st(1,5) e(1,5) k(1,5)
    by (simp add: run_complete_analysis_def analysis_results_def)
  from run assms have res: "r = Inr (analysis_results ticker risk_attitude horizon
      (stage_output lm) (stage_output ls) (stage_output le) (stage_output lr))"
    and "s' = s4" and "log' = l4" by simp_all
  with m st e k plain show ?thesis
    by (intro exI [of _ lm] exI [of _ ls] exI [of _ le] exI [of _ lr]) simp
qed

lemma prefix_cut_take: "prefix_cut n (take n x) x"
  by (simp add: prefix_cut_def take_is_prefix)

lemma invoke_agent_returns: "\<exists>reply s'. invoke_agent agent prompt n s = (Inr reply, s')"
proof -
  obtain r s' log' where
    "invoke_agent (logged MarketIntelligence agent) prompt n (s, []) = (r, (s', log'))"
    by (metis surj_pair)
  from invoke_agent_stage [OF this] show ?thesis by blast
qed

section \<open>Properties of the four-stage pipeline\<close>

text \<open>
  C4. For every ticker, risk attitude, horizon and number of lookback days, and for any
  four agents, the calls \<^verbatim>\<open>run_complete_analysis\<close> makes are four non-empty blocks in
  the order Market, Strategy, Execution, Risk. Every call of the Execution block carries
  the output of the Strategy block in its prompt, every call of the Risk block carries
  the outputs of the three blocks before it, and the dictionary returned holds the four
  outputs. This holds whatever the agents do, so a stage that yields a failure text is
  neither skipped nor moved, and the stages after it still run. The result and final
  state are those of the same run without the log.
\<close>

theorem run_complete_analysis_stage_order:
  assumes "run_complete_analysis (logged_agents ags) ticker risk_attitude horizon
             lookback_days (s, []) = (r, (s', log))"
  shows "\<exists>lm ls le lr.
           log = lm @ ls @ le @ lr
         \<and> lm \<noteq> [] \<and> ls \<noteq> [] \<and> le \<noteq> [] \<and> lr \<noteq> []
         \<and> (\<forall>c\<in>set lm. callee c = MarketIntelligence
               \<and> call_prompt c = market_intel_prompt ticker lookback_days)
         \<and> (\<forall>c\<in>set ls. callee c = StrategyArchitect
               \<and> call_prompt c = strategy_architect_prompt ticker risk_attitude horizon)
         \<and> (\<forall>c\<in>set le. callee c = ExecutionPlanner
               \<and> call_prompt c =
                   execution_planner_prompt ticker (take 2000 (stage_output ls)))
         \<and> (\<forall>c\<in>set lr. callee c = RiskAssessor
               \<and> call_prompt c =
                   risk_assessor_prompt ticker (take 2000 (stage_output lm))
                     (take 2000 (stage_output ls)) (take 2000 (stage_output le)))
         \<and> r = Inr (analysis_results ticker risk_attitude horizon (stage_output lm)
                      (stage_output ls) (stage_output le) (stage_output lr))
         \<and> run_complete_analysis ags ticker risk_attitude horizon lookback_days s = (r, s')"
  using run_complete_analysis_logged [OF assms] by (simp only: append_Nil)

lemma failing_pipeline_run:
  "run_complete_analysis (logged_agents (all_agents failing_agent)) ''AAPL'' ''Moderate''
     ''Medium-term'' 7 (0, [])
   = (Inr (analysis_results ''AAPL'' ''Moderate'' ''Medium-term''
             ''Agent invocation error: model endpoint unreachable''
             ''Agent invocation error: model endpoint unreachable''
             ''Agent invocation error: model endpoint unreachable''
             ''Agent invocation error: model endpoint unreachable''),
      (5,
       [\<lparr>callee = MarketIntelligence, call_prompt = market_intel_prompt ''AAPL'' 7,
         call_kwargs = [(''max_output_tokens'', PInt 2000)],
         call_outcome = Inl (Exn TypeError ''unexpected keyword argument'')\<rparr>,
        \<lparr>callee = MarketIntelligence, call_prompt = market_intel_prompt ''AAPL'' 7,
         call_kwargs = [(''max_tokens'', PInt 2000)],
         call_outcome = Inl (Exn ConnectionError ''model endpoint unreachable'')\<rparr>,
        \<lparr>callee = StrategyArchitect,
         call_prompt = strategy_architect_prompt ''AAPL'' ''Moderate'' ''Medium-term'',
         call_kwargs = [(''max_output_tokens'', PInt 2000)],
         call_outcome = Inl (Exn ConnectionError ''model endpoint unreachable'')\<rparr>,
        \<lparr>callee = ExecutionPlanner,
         call_prompt = execution_planner_prompt ''AAPL''
           ''Agent invocation error: model endpoint unreachable'',
         call_kwargs = [(''max_output_tokens'', PInt 2000)],
         call_outcome = Inl (Exn ConnectionError ''model endpoint unreachable'')\<rparr>,
        \<lparr>callee = RiskAssessor,
         call_prompt = risk_assessor_prompt ''AAPL''
           ''Agent invocation error: model endpoint unreachable''
           ''Agent invocation error: model endpoint unreachable''
           ''Agent invocation error: model endpoint unreachable'',
         call_kwargs = [(''max_output_tokens'', PInt 2000)],
         call_outcome = Inl (Exn ConnectionError ''model endpoint unreachable'')\<rparr>]))"
  by (simp add: run_complete_analysis_def analysis_results_def get_market_analysis_def
      get_strategies_def get_execution_plan_def get_risk_assessment_def
      market_intel_tool_def strategy_architect_tool_def execution_planner_tool_def
      risk_assessor_tool_def invoke_agent_def kwargs_variants_def TOKEN_CAP_def
      logged_agents_def all_agents_def logged_def failing_agent_def isinstance_def)

theorem run_complete_analysis_stage_order_witness:
  "map callee (snd (snd (run_complete_analysis (logged_agents (all_agents failing_agent))
       ''AAPL'' ''Moderate'' ''Medium-term'' 7 (0, []))))
   = [MarketIntelligence, MarketIntelligence, StrategyArchitect, ExecutionPlanner,
      RiskAssessor]"
  using run_complete_analysis_stage_order [OF failing_pipeline_run] failing_pipeline_run
  by simp

lemma calls_of_blocks:
  assumes "log = lm @ ls @ le @ lr"
    and "\<forall>c\<in>set lm. callee c = MarketIntelligence"
    and "\<forall>c\<in>set ls. callee c = StrategyArchitect"
    and "\<forall>c\<in>set le. callee c = ExecutionPlanner"
    and "\<forall>c\<in>set lr. callee c = RiskAssessor"
  shows "calls_of MarketIntelligence log = lm" and "calls_of StrategyArchitect log = ls"
    and "calls_of ExecutionPlanner log = le" and "calls_of RiskAssessor log = lr"
proof -
  have keep: "filter (\<lambda>c. callee c = nm) xs = xs" if "\<forall>c\<in>set xs. callee c = nm"
    for nm and xs :: "call list" using that by (induction xs) simp_all
  have drop: "filter (\<lambda>c. callee c = nm) xs = []"
    if "\<forall>c\<in>set xs. callee c = nm'" and "nm' \<noteq> nm"
    for nm nm' and xs :: "call list" using that by (induction xs) simp_all
  show "calls_of MarketIntelligence log = lm"
    using assms by (simp add: calls_of_def keep drop [of _ StrategyArchitect]
        drop [of _ ExecutionPlanner] drop [of _ RiskAssessor])
  show "calls_of StrategyArchitect log = ls"
    using assms by (simp add: calls_of_def keep drop [of _ MarketIntelligence]
        drop [of _ ExecutionPlanner] drop [of _ RiskAssessor])
  show "calls_of ExecutionPlanner log = le"
    using assms by (simp add: calls_of_def keep drop [of _ MarketIntelligence]
        drop [of _ StrategyArchitect] drop [of _ RiskAssessor])
  show "calls_of RiskAssessor log = lr"
    using assms by (simp add: calls_of_def keep drop [of _ MarketIntelligence]
        drop [of _ StrategyArchitect] drop [of _ ExecutionPlanner])
qed

text \<open>
  C3. In \<^verbatim>\<open>run_complete_analysis\<close> the output of a stage is what its agent's calls gave
  (\<open>stage_output\<close> of the calls logged for that agent), and it is stored unchanged in the
  dictionary returned. The strategy text embedded in the prompt of every Execution call
  and the market, strategy and execution texts embedded in the prompt of every Risk call
  are prefix cuts of those outputs to 2000 characters: at most 2000 characters long, equal
  to the first 2000 characters of an output longer than that, and equal to the output
  otherwise. The result and final state are those of the same run without the log.
\<close>

theorem run_complete_analysis_truncation:
  assumes "run_complete_analysis (logged_agents ags) ticker risk_attitude horizon
             lookback_days (s, []) = (r, (s', log))"
  shows "\<exists>passed_market passed_strategies passed_execution.
           prefix_cut 2000 passed_market (stage_output (calls_of MarketIntelligence log))
         \<and> prefix_cut 2000 passed_strategies (stage_output (calls_of StrategyArchitect log))
         \<and> prefix_cut 2000 passed_execution (stage_output (calls_of ExecutionPlanner log))
         \<and> passed_market = take 2000 (stage_output (calls_of MarketIntelligence log))
         \<and> passed_strategies = take 2000 (stage_output (calls_of StrategyArchitect log))
         \<and> passed_execution = take 2000 (stage_output (calls_of ExecutionPlanner log))
         \<and> calls_of MarketIntelligence log \<noteq> []
         \<and> calls_of StrategyArchitect log \<noteq> []
         \<and> calls_of ExecutionPlanner log \<noteq> []
         \<and> calls_of RiskAssessor log \<noteq> []
         \<and> (\<forall>c\<in>set (calls_of ExecutionPlanner log).
               call_prompt c = execution_planner_prompt ticker passed_strategies)
         \<and> (\<forall>c\<in>set (calls_of RiskAssessor log).
               call_prompt c = risk_assessor_prompt ticker passed_market passed_strategies
                                 passed_execution)
         \<and> r = Inr (analysis_results ticker risk_attitude horizon
                      (stage_output (calls_of MarketIntelligence log))
                      (stage_output (calls_of StrategyArchitect log))
                      (stage_output (calls_of ExecutionPlanner log))
                      (stage_output (calls_of RiskAssessor log)))
         \<and> run_complete_analysis ags ticker risk_attitude horizon lookback_days s = (r, s')"
proof -
  from run_complete_analysis_logged [OF assms] obtain lm ls le lr where
    l: "log = lm @ ls @ le @ lr" and ne: "lm \<noteq> []" "ls \<noteq> []" "le \<noteq> []" "lr \<noteq> []"
    and m: "\<forall>c\<in>set lm. callee c = MarketIntelligence"
    and st: "\<forall>c\<in>set ls. callee c = StrategyArchitect"
    and e: "\<forall>c\<in>set le. callee c = ExecutionPlanner
              \<and> call_prompt c = execution_planner_prompt ticker (take 2000 (stage_output ls))"
    and k: "\<forall>c\<in>set lr. callee c = RiskAssessor
              \<and> call_prompt c = risk_assessor_prompt ticker (take 2000 (stage_output lm))
                   (take 2000 (stage_output ls)) (take 2000 (stage_output le))"
    and r: "r = Inr (analysis_results ticker risk_attitude horizon (stage_output lm)
                      (stage_output ls) (stage_output le) (stage_output lr))"
    and plain: "run_complete_analysis ags ticker risk_attitude horizon lookback_days s = (r, s')"
    by (simp only: append_Nil) blast
  from e have e': "\<forall>c\<in>set le. callee c = ExecutionPlanner" by blast
  from k have k': "\<forall>c\<in>set lr. callee c = RiskAssessor" by blast
  note blocks = calls_of_blocks [OF l m st e' k']
  show ?thesis
  proof (rule exI [where x = "take 2000 (stage_output lm)"],
      rule exI [where x = "take 2000 (stage_output ls)"],
      rule exI [where x = "take 2000 (stage_output le)"], intro conjI)
    show "prefix_cut 2000 (take 2000 (stage_output lm))
            (stage_output (calls_of MarketIntelligence log))"
      by (simp only: blocks prefix_cut_take)
    show "prefix_cut 2000 (take 2000 (stage_output ls))
            (stage_output (calls_of StrategyArchitect log))"
      by (simp only: blocks prefix_cut_take)
    show "prefix_cut 2000 (take 2000 (stage_output le))
            (stage_output (calls_of ExecutionPlanner log))"
      by (simp only: blocks prefix_cut_take)
    show "take 2000 (stage_output lm) = take 2000 (stage_output (calls_of MarketIntelligence log))"
      by (simp only: blocks)
    show "take 2000 (stage_output ls) = take 2000 (stage_output (calls_of StrategyArchitect log))"
      by (simp only: blocks)
    show "take 2000 (stage_output le) = take 2000 (stage_output (calls_of ExecutionPlanner log))"
      by (simp only: blocks)
    show "calls_of MarketIntelligence log \<noteq> []" using ne by (simp add: blocks)
    show "calls_of StrategyArchitect log \<noteq> []" using ne by (simp add: blocks)
    show "calls_of ExecutionPlanner log \<noteq> []" using ne by (simp add: blocks)
    show "calls_of RiskAssessor log \<noteq> []" using ne by (simp add: blocks)
    show "\<forall>c\<in>set (calls_of ExecutionPlanner log).
            call_prompt c = execution_planner_prompt ticker (take 2000 (stage_output ls))"
      using e by (simp only: blocks) blast
    show "\<forall>c\<in>set (calls_of RiskAssessor log).
            call_prompt c = risk_assessor_prompt ticker (take 2000 (stage_output lm))
              (take 2000 (stage_output ls)) (take 2000 (stage_output le))"
      using k by (simp only: blocks) blast
    show "r = Inr (analysis_results ticker risk_attitude horizon
                      (stage_output (calls_of MarketIntelligence log))
                      (stage_output (calls_of StrategyArchitect log))
                      (stage_output (calls_of ExecutionPlanner log))
                      (stage_output (calls_of RiskAssessor log)))"
      using r by (simp only: blocks)
    show "run_complete_analysis ags ticker risk_attitude horizon lookback_days s = (r, s')"
      by (rule plain)
  qed
qed

lemma verbose_run:
  "run_complete_analysis (logged_agents (all_agents verbose_agent)) ''AAPL'' ''Moderate''
     ''Medium-term'' 7 (0, [])
   = (Inr (analysis_results ''AAPL'' ''Moderate'' ''Medium-term''
             (replicate 2500 CHR ''x'') (replicate 2500 CHR ''x'')
             (replicate 2500 CHR ''x'') (replicate 2500 CHR ''x'')),
      (4,
       [\<lparr>callee = MarketIntelligence, call_prompt = market_intel_prompt ''AAPL'' 7,
         call_kwargs = [(''max_output_tokens'', PInt 2000)],
         call_outcome = Inr (replicate 2500 CHR ''x'')\<rparr>,
        \<lparr>callee = StrategyArchitect,
         call_prompt = strategy_architect_prompt ''AAPL'' ''Moderate'' ''Medium-term'',
         call_kwargs = [(''max_output_tokens'', PInt 2000)],
         call_outcome = Inr (replicate 2500 CHR ''x'')\<rparr>,
        \<lparr>callee = ExecutionPlanner,
         call_prompt = execution_planner_prompt ''AAPL'' (replicate 2000 CHR ''x''),
         call_kwargs = [(''max_output_tokens'', PInt 2000)],
         call_outcome = Inr (replicate 2500 CHR ''x'')\<rparr>,
        \<lparr>callee = RiskAssessor,
         call_prompt = risk_assessor_prompt ''AAPL'' (replicate 2000 CHR ''x'')
           (replicate 2000 CHR ''x'') (replicate 2000 CHR ''x''),
         call_kwargs = [(''max_output_tokens'', PInt 2000)],
         call_outcome = Inr (replicate 2500 CHR ''x'')\<rparr>]))"
  by (simp add: run_complete_analysis_def analysis_results_def get_market_analysis_def
      get_strategies_def get_execution_plan_def get_risk_assessment_def
      market_intel_tool_def strategy_architect_tool_def execution_planner_tool_def
      risk_assessor_tool_def invoke_agent_def kwargs_variants_def TOKEN_CAP_def
      logged_agents_def all_agents_def logged_def verbose_agent_def)

theorem run_complete_analysis_truncation_witness:
  "map call_prompt (calls_of ExecutionPlanner
     (snd (snd (run_complete_analysis (logged_agents (all_agents verbose_agent))
        ''AAPL'' ''Moderate'' ''Medium-term'' 7 (0, [])))))
   = [execution_planner_prompt ''AAPL'' (replicate 2000 CHR ''x'')]
   \<and> stage_output (calls_of StrategyArchitect
       (snd (snd (run_complete_analysis (logged_agents (all_agents verbose_agent))
          ''AAPL'' ''Moderate'' ''Medium-term'' 7 (0, [])))))
     = replicate 2500 CHR ''x''
   \<and> prefix_cut 2000 (replicate 2000 CHR ''x'') (replicate 2500 CHR ''x'')"
  using run_complete_analysis_truncation [OF verbose_run] verbose_run
    prefix_cut_take [of 2000 "replicate 2500 CHR ''x''"]
  by (simp add: calls_of_def stage_output_def)

lemma tool_returns:
  "\<exists>t. fst (get_market_analysis ags ticker lookback_days s) = Inr t"
  "\<exists>t. fst (get_strategies ags ticker risk_attitude horizon s) = Inr t"
  "\<exists>t. fst (get_execution_plan ags ticker summary s) = Inr t"
  "\<exists>t. fst (get_risk_assessment ags ticker m st ex s) = Inr t"
  using invoke_agent_returns [of "market_intelligence ags"
      "market_intel_prompt ticker lookback_days" TOKEN_CAP s]
    invoke_agent_returns [of "strategy_architect ags"
      "strategy_architect_prompt ticker risk_attitude horizon" TOKEN_CAP s]
    invoke_agent_returns [of "execution_planner ags"
      "execution_planner_prompt ticker summary" TOKEN_CAP s]
    invoke_agent_returns [of "risk_assessor ags"
      "risk_assessor_prompt ticker m st ex" TOKEN_CAP s]
  by (auto simp: get_market_analysis_def market_intel_tool_def get_strategies_def
      strategy_architect_tool_def get_execution_plan_def execution_planner_tool_def
      get_risk_assessment_def risk_assessor_tool_def)

lemma run_complete_analysis_returns:
  "\<exists>m st ex rk. fst (run_complete_analysis ags ticker risk_attitude horizon lookback_days s)
      = Inr (analysis_results ticker risk_attitude horizon m st ex rk)"
proof -
  obtain r s' log' where
    "run_complete_analysis (logged_agents ags) ticker risk_attitude horizon lookback_days
       (s, []) = (r, (s', log'))"
    by (metis surj_pair)
  from run_complete_analysis_logged [OF this] show ?thesis
    by (metis fst_conv)
qed

text \<open>
  C7. \<^verbatim>\<open>analyze\<close> makes exactly one call of the orchestrator's agent, with the user's
  query and no keyword arguments, and has no handler: when that call returns, its text
  is the single string \<^verbatim>\<open>analyze\<close> returns, and when it raises, the exception leaves
  \<^verbatim>\<open>analyze\<close>. Each of \<^verbatim>\<open>get_market_analysis\<close>, \<^verbatim>\<open>get_strategies\<close>,
  \<^verbatim>\<open>get_execution_plan\<close> and \<^verbatim>\<open>get_risk_assessment\<close> always returns a single string.
  \<^verbatim>\<open>run_complete_analysis\<close> always returns a dictionary of seven strings (the three
  inputs and the four stage outputs), with no entry that tells success from failure.
\<close>

theorem orchestrator_entrypoint_results:
  "(\<forall>r s' log. analyze (logged nm agent) user_query (s, []) = (r, (s', log)) \<longrightarrow>
       log = [\<lparr>callee = nm, call_prompt = user_query, call_kwargs = [], call_outcome = r\<rparr>]
       \<and> analyze agent user_query s = (r, s'))
   \<and> (\<forall>t. fst (agent s user_query []) = Inr t \<longrightarrow> fst (analyze agent user_query s) = Inr t)
   \<and> (\<forall>e. fst (agent s user_query []) = Inl e \<longrightarrow> fst (analyze agent user_query s) = Inl e)
   \<and> (\<exists>t. fst (get_market_analysis ags ticker lookback_days s) = Inr t)
   \<and> (\<exists>t. fst (get_strategies ags ticker risk_attitude horizon s) = Inr t)
   \<and> (\<exists>t. fst (get_execution_plan ags ticker summary s) = Inr t)
   \<and> (\<exists>t. fst (get_risk_assessment ags ticker m st ex s) = Inr t)
   \<and> (\<exists>market strategies execution risk.
         fst (run_complete_analysis ags ticker risk_attitude horizon lookback_days s)
           = Inr (PDict
                   [(''ticker'', PStr ticker),
                    (''risk_attitude'', PStr risk_attitude),
                    (''horizon'', PStr horizon),
                    (''market_analysis'', PStr market),
                    (''strategies'', PStr strategies),
                    (''execution_plan'', PStr execution),
                    (''risk_assessment'', PStr risk)]))"
proof -
  have one_call: "\<forall>r s' log. analyze (logged nm agent) user_query (s, []) = (r, (s', log)) \<longrightarrow>
       log = [\<lparr>callee = nm, call_prompt = user_query, call_kwargs = [], call_outcome = r\<rparr>]
       \<and> analyze agent user_query s = (r, s')"
    by (auto simp: analyze_def logged_apply)
  show ?thesis
    using one_call tool_returns [of ags ticker] run_complete_analysis_returns [of ags ticker]
    by (simp add: analyze_def analysis_results_def)
qed

lemma analyze_answering_run:
  "analyze (logged MarketIntelligence verbose_agent) ''Analyze AAPL'' (0, [])
   = (Inr (replicate 2500 CHR ''x''),
      (1, [\<lparr>callee = MarketIntelligence, call_prompt = ''Analyze AAPL'', call_kwargs = [],
            call_outcome = Inr (replicate 2500 CHR ''x'')\<rparr>]))"
  by (simp add: analyze_def logged_def verbose_agent_def)

lemma analyze_raising_run:
  "analyze (logged MarketIntelligence failing_agent) ''Analyze AAPL'' (1, [])
   = (Inl (Exn ConnectionError ''model endpoint unreachable''),
      (2, [\<lparr>callee = MarketIntelligence, call_prompt = ''Analyze AAPL'', call_kwargs = [],
            call_outcome = Inl (Exn ConnectionError ''model endpoint unreachable'')\<rparr>]))"
  by (simp add: analyze_def logged_def failing_agent_def)

theorem orchestrator_entrypoint_results_witness:
  "analyze verbose_agent ''Analyze AAPL'' 0 = (Inr (replicate 2500 CHR ''x''), 1)
   \<and> analyze failing_agent ''Analyze AAPL'' 1
       = (Inl (Exn ConnectionError ''model endpoint unreachable''), 2)"
  using orchestrator_entrypoint_results [of MarketIntelligence verbose_agent "''Analyze AAPL''" 0]
    orchestrator_entrypoint_results [of MarketIntelligence failing_agent "''Analyze AAPL''" 1]
    analyze_answering_run analyze_raising_run
  by simp

lemma verbose_plain_run:
  "run_complete_analysis (all_agents verbose_agent) ''AAPL'' ''Moderate'' ''Medium-term'' 7 0
   = (Inr (analysis_results ''AAPL'' ''Moderate'' ''Medium-term''
             (replicate 2500 CHR ''x'') (replicate 2500 CHR ''x'')
             (replicate 2500 CHR ''x'') (replicate 2500 CHR ''x'')), 4)"
  by (simp add: run_complete_analysis_def analysis_results_def get_market_analysis_def
      get_strategies_def get_execution_plan_def get_risk_assessment_def
      market_intel_tool_def strategy_architect_tool_def execution_planner_tool_def
      risk_assessor_tool_def invoke_agent_def kwargs_variants_def TOKEN_CAP_def
      all_agents_def verbose_agent_def)

text \<open>
  C7, with \<^verbatim>\<open>analyze\<close> and \<^verbatim>\<open>run_complete_analysis\<close> each returning a single string,
  does not hold: on agents that answer every call \<^verbatim>\<open>run_complete_analysis\<close> returns a
  dictionary, which is not a string, and on an agent whose call raises
  \<^verbatim>\<open>ConnectionError\<close> \<^verbatim>\<open>analyze\<close> returns nothing and raises that exception.
\<close>

theorem orchestrator_entrypoint_results_counterexample:
  "fst (run_complete_analysis (all_agents verbose_agent) ''AAPL'' ''Moderate''
          ''Medium-term'' 7 0)
     = Inr (PDict
             [(''ticker'', PStr ''AAPL''),
              (''risk_attitude'', PStr ''Moderate''),
              (''horizon'', PStr ''Medium-term''),
              (''market_analysis'', PStr (replicate 2500 CHR ''x'')),
              (''strategies'', PStr (replicate 2500 CHR ''x'')),
              (''execution_plan'', PStr (replicate 2500 CHR ''x'')),
              (''risk_assessment'', PStr (replicate 2500 CHR ''x''))])
   \<and> \<not> (case fst (run_complete_analysis (all_agents verbose_agent) ''AAPL'' ''Moderate''
                     ''Medium-term'' 7 0) of
            Inl e \<Rightarrow> False
          | Inr v \<Rightarrow> is_str v)
   \<and> fst (analyze failing_agent ''Analyze AAPL'' 1)
       = Inl (Exn ConnectionError ''model endpoint unreachable'')"
  by (simp add: verbose_plain_run analysis_results_def analyze_def failing_agent_def)

section \<open>Trimming, lower-casing and the deny-list\<close>

lemma check_patterns_iff:
  "check_patterns ps q = (if list_ex (\<lambda>p. py_in p q) ps
       then Inl (Exn ValueError suspicious_message) else Inr ())"
  by (induction ps) simp_all

lemma lower_char_cases:
  "lower_char c = c \<or> (c \<in> set upper_case \<and> lower_char c \<in> set lower_case)"
proof (cases "map_of (zip upper_case lower_case) c")
  case None
  then show ?thesis by (simp add: lower_char_def)
next
  case (Some l)
  then have "(c, l) \<in> set (zip upper_case lower_case)" by (rule map_of_SomeD)
  then have "c \<in> set upper_case" and "l \<in> set lower_case"
    by (auto dest: set_zip_leftD set_zip_rightD)
  with Some show ?thesis by (simp add: lower_char_def)
qed

lemma letters_not_space:
  "c \<in> set upper_case \<Longrightarrow> \<not> isspace c" "c \<in> set lower_case \<Longrightarrow> \<not> isspace c"
  by (auto simp: upper_case_def lower_case_def isspace_def whitespace_def)

lemma isspace_lower_char: "isspace (lower_char c) = isspace c"
  using lower_char_cases [of c] letters_not_space by auto

lemma dropWhile_isspace_lower: "dropWhile isspace (lower s) = lower (dropWhile isspace s)"
  by (induction s) (simp_all add: lower_def isspace_lower_char)

lemma strip_lower: "strip (lower s) = lower (strip s)"
proof -
  have rev_lower: "rev (lower t) = lower (rev t)" for t
    by (simp add: lower_def rev_map)
  show ?thesis
    by (simp add: strip_def dropWhile_isspace_lower rev_lower)
qed

lemma dropWhile_keeps_occurrence:
  assumes "p \<noteq> []" and "\<not> P (hd p)"
  shows "\<exists>a'. dropWhile P (a @ p @ b) = a' @ p @ b"
proof (induction a)
  case Nil
  from assms have "dropWhile P (p @ b) = p @ b" by (cases p) simp_all
  then show ?case by (intro exI [of _ "[]"]) simp
next
  case (Cons x a)
  then obtain a' where "dropWhile P (a @ p @ b) = a' @ p @ b" by blast
  then show ?case
    by (cases "P x") (auto intro: exI [of _ "x # a"])
qed

lemma strip_keeps_occurrence:
  assumes "sublist p t" and "p \<noteq> []" and "\<not> isspace (hd p)" and "\<not> isspace (last p)"
  shows "sublist p (strip t)"
proof -
  from assms(1) obtain a b where t: "t = a @ p @ b" by (auto simp: sublist_def)
  from dropWhile_keeps_occurrence [of p isspace a b] assms(2,3) obtain a' where
    1: "dropWhile isspace (a @ p @ b) = a' @ p @ b" by blast
  have "rev p \<noteq> []" "\<not> isspace (hd (rev p))"
    using assms(2,4) by (simp_all add: hd_rev)
  with dropWhile_keeps_occurrence [of "rev p" isspace "rev b" "rev a'"] obtain b' where
    2: "dropWhile isspace (rev b @ rev p @ rev a') = b' @ rev p @ rev a'" by blast
  have "strip t = a' @ p @ rev b'"
    using 1 2 by (simp add: strip_def t)
  then show ?thesis by (auto simp: sublist_def)
qed

lemma suspicious_patterns_shape:
  assumes "p \<in> set suspicious_patterns"
  shows "p \<noteq> [] \<and> \<not> isspace (hd p) \<and> \<not> isspace (last p)"
  using assms
  by (auto simp: suspicious_patterns_def isspace_def whitespace_def)

text \<open>A pattern occurring in the raw prompt, in any letter case, is found by the check.\<close>

lemma occurrence_survives:
  assumes "p \<in> set suspicious_patterns" and "sublist p (lower t)"
  shows "py_in p (lower (strip t))"
proof -
  from suspicious_patterns_shape [OF assms(1)] assms(2)
  have "sublist p (strip (lower t))" by (intro strip_keeps_occurrence) simp_all
  then show ?thesis by (simp add: strip_lower py_in_def)
qed

lemma process_agentcore_payload_accepts:
  assumes "accepted_query payload = Some q"
  shows "process_agentcore_payload payload = Inr q"
proof -
  from assms obtain kvs raw where p: "payload = PDict kvs"
    and g: "dict_get kvs ''prompt'' (PStr '''') = PStr raw"
    and a: "acceptable raw" and q: "q = strip raw"
    by (auto simp: accepted_query_def split: pyval.splits if_splits)
  from a have "raw \<noteq> []" by (auto simp: acceptable_def strip_def)
  with p g a q show ?thesis
    by (simp add: process_agentcore_payload_def check_patterns_iff acceptable_def
        MAX_INPUT_LENGTH_def)
qed

lemma process_agentcore_payload_rejects:
  assumes "accepted_query payload = None"
  shows "\<exists>m. process_agentcore_payload payload = Inl (Exn ValueError m)"
proof (cases payload)
  case (PDict kvs)
  show ?thesis
  proof (cases "dict_get kvs ''prompt'' (PStr '''')")
    case (PStr raw)
    with PDict assms have "\<not> acceptable raw"
      by (simp add: accepted_query_def split: if_splits)
    with PDict PStr show ?thesis
      by (auto simp: process_agentcore_payload_def check_patterns_iff acceptable_def
          MAX_INPUT_LENGTH_def Let_def)
  qed (simp_all add: PDict process_agentcore_payload_def)
qed (simp_all add: process_agentcore_payload_def)

lemma invoke_rejected:
  assumes "process_agentcore_payload payload = Inl (Exn ValueError m)"
  shows "\<exists>envelope. invoke advisor payload ts1 ts2 s = (Inr envelope, s)
           \<and> lookup envelope ''error_type'' = Some (PStr ''validation_error'')
           \<and> lookup envelope ''error'' = Some (PStr (''Invalid request format: '' @ m))"
  using assms
  by (simp add: invoke_def invoke_except_def isinstance_def error_envelope_def)

lemma not_acceptable_reasons:
  assumes "raw = [] \<or> (\<forall>c\<in>set raw. isspace c) \<or> 5000 < length (strip raw)
           \<or> (\<exists>p\<in>set suspicious_patterns. sublist p (lower raw))"
  shows "\<not> acceptable raw"
proof -
  have "strip raw = []" if "\<forall>c\<in>set raw. isspace c"
  proof -
    from that have d: "dropWhile isspace raw = []" by (induction raw) simp_all
    show ?thesis unfolding strip_def d by simp
  qed
  moreover have "list_ex (\<lambda>p. py_in p (lower (strip raw))) suspicious_patterns"
    if "\<exists>p\<in>set suspicious_patterns. sublist p (lower raw)"
    using that occurrence_survives by (auto simp: list_ex_iff)
  ultimately show ?thesis
    using assms by (auto simp: acceptable_def strip_def)
qed

section \<open>Properties of the request boundary\<close>

text \<open>
  C6. \<^verbatim>\<open>process_agentcore_payload\<close> accepts exactly the payloads that are
  dictionaries whose prompt is a string that is non-empty after trimming, has at most
  5000 characters after trimming and, trimmed and lower-cased, contains none of the
  deny-listed substrings; it returns the trimmed prompt. Every other payload is rejected
  with a \<^verbatim>\<open>ValueError\<close>, which \<^verbatim>\<open>invoke\<close> turns into an error envelope of type
  \<open>validation_error\<close> without calling the advisor. Rejected in particular are a prompt
  that is not a string, is empty, is all whitespace, has more than 5000 characters after
  trimming, or contains a deny-listed substring in any letter case.
\<close>

theorem process_agentcore_payload_validation:
  "(\<forall>q. accepted_query payload = Some q \<longrightarrow> process_agentcore_payload payload = Inr q)
   \<and> (accepted_query payload = None \<longrightarrow>
        (\<exists>m envelope.
           process_agentcore_payload payload = Inl (Exn ValueError m)
           \<and> invoke advisor payload ts1 ts2 s = (Inr envelope, s)
           \<and> lookup envelope ''error_type'' = Some (PStr ''validation_error'')))
   \<and> (\<forall>kvs v. payload = PDict kvs \<and> dict_get kvs ''prompt'' (PStr '''') = v \<and> \<not> is_str v
        \<longrightarrow> accepted_query payload = None)
   \<and> (\<forall>kvs raw. payload = PDict kvs \<and> dict_get kvs ''prompt'' (PStr '''') = PStr raw
          \<and> (raw = [] \<or> (\<forall>c\<in>set raw. isspace c) \<or> 5000 < length (strip raw)
              \<or> (\<exists>p\<in>set suspicious_patterns. sublist p (lower raw)))
        \<longrightarrow> accepted_query payload = None)"
proof (intro conjI allI impI)
  fix q assume "accepted_query payload = Some q"
  then show "process_agentcore_payload payload = Inr q"
    by (rule process_agentcore_payload_accepts)
next
  assume "accepted_query payload = None"
  then obtain m where m: "process_agentcore_payload payload = Inl (Exn ValueError m)"
    using process_agentcore_payload_rejects by blast
  from invoke_rejected [OF this, of advisor ts1 ts2 s] m
  show "\<exists>m envelope.
           process_agentcore_payload payload = Inl (Exn ValueError m)
           \<and> invoke advisor payload ts1 ts2 s = (Inr envelope, s)
           \<and> lookup envelope ''error_type'' = Some (PStr ''validation_error'')"
    by blast
next
  fix kvs v
  assume "payload = PDict kvs \<and> dict_get kvs ''prompt'' (PStr '''') = v \<and> \<not> is_str v"
  then show "accepted_query payload = None"
    by (cases v) (simp_all add: accepted_query_def)
next
  fix kvs raw
  assume a: "payload = PDict kvs \<and> dict_get kvs ''prompt'' (PStr '''') = PStr raw
          \<and> (raw = [] \<or> (\<forall>c\<in>set raw. isspace c) \<or> 5000 < length (strip raw)
              \<or> (\<exists>p\<in>set suspicious_patterns. sublist p (lower raw)))"
  then have "\<not> acceptable raw" by (intro not_acceptable_reasons) blast
  with a show "accepted_query payload = None"
    by (simp add: accepted_query_def)
qed

lemma accepted_example:
  "accepted_query (PDict [(''prompt'', PStr ''  Analyze AAPL stock for moderate risk investor  '')])
     = Some ''Analyze AAPL stock for moderate risk investor''"
  by code_simp

lemma rejected_example:
  "accepted_query (PDict [(''prompt'', PStr [CHR '' '', CHR 0x0A, CHR 0x09, CHR '' ''])]) = None"
  by code_simp

theorem process_agentcore_payload_validation_witness:
  "process_agentcore_payload
      (PDict [(''prompt'', PStr ''  Analyze AAPL stock for moderate risk investor  '')])
     = Inr ''Analyze AAPL stock for moderate risk investor''
   \<and> (\<exists>m envelope.
         process_agentcore_payload
             (PDict [(''prompt'', PStr [CHR '' '', CHR 0x0A, CHR 0x09, CHR '' ''])])
           = Inl (Exn ValueError m)
         \<and> invoke verbose_agent
             (PDict [(''prompt'', PStr [CHR '' '', CHR 0x0A, CHR 0x09, CHR '' ''])])
             ''2025-01-01T00:00:00+00:00'' ''2025-01-01T00:00:01+00:00'' 0
           = (Inr envelope, 0)
         \<and> lookup envelope ''error_type'' = Some (PStr ''validation_error''))"
  using
    process_agentcore_payload_validation
      [of "PDict [(''prompt'', PStr ''  Analyze AAPL stock for moderate risk investor  '')]"]
    process_agentcore_payload_validation
      [of "PDict [(''prompt'', PStr [CHR '' '', CHR 0x0A, CHR 0x09, CHR '' ''])]"
          verbose_agent "''2025-01-01T00:00:00+00:00''" "''2025-01-01T00:00:01+00:00''" 0]
    accepted_example rejected_example
  by simp

lemma strip_trailing_spaces:
  assumes "\<not> isspace (hd w)" "\<not> isspace (last w)" "w \<noteq> []"
  shows "strip (w @ replicate n CHR '' '') = w"
proof -
  have sp: "isspace CHR '' ''" by (simp add: isspace_def whitespace_def)
  have 1: "dropWhile isspace (w @ replicate n CHR '' '') = w @ replicate n CHR '' ''"
    using assms by (cases w) simp_all
  have 2: "dropWhile isspace (replicate n CHR '' '' @ rev w) = rev w"
    using assms sp by (cases "rev w") (simp_all add: dropWhile_append hd_rev)
  show ?thesis by (simp add: strip_def 1 2)
qed

lemma upper_case_script_rejected: "process_agentcore_payload (PDict [(''prompt'', PStr ''<SCRIPT>alert(1)</SCRIPT>'')])
       = Inl (Exn ValueError suspicious_message)"
  by code_simp

lemma upper_case_script_clean: "\<not> list_ex (\<lambda>p. sublist p ''<SCRIPT>alert(1)</SCRIPT>'') suspicious_patterns"
  by code_simp

lemma upper_case_script_not_blank: "strip ''<SCRIPT>alert(1)</SCRIPT>'' \<noteq> []"
  by code_simp

lemma padded_prompt_accepted: "process_agentcore_payload (PDict [(''prompt'', PStr (''AAPL'' @ replicate 5000 CHR '' ''))])
       = Inr ''AAPL''"
proof -
  have "strip (''AAPL'' @ replicate 5000 CHR '' '') = ''AAPL''"
    by (rule strip_trailing_spaces) (simp_all add: isspace_def whitespace_def)
  moreover have "check_patterns suspicious_patterns (lower ''AAPL'') = Inr ()"
    by code_simp
  ultimately show ?thesis
    by (simp add: process_agentcore_payload_def dict_get_def MAX_INPUT_LENGTH_def)
qed

text \<open>
  C6, with the 5000 characters measured on the prompt as sent and the deny-listed
  substrings looked for as they are written, does not hold: an upper-case
  \<^verbatim>\<open><SCRIPT\<close> is rejected although the prompt contains no deny-listed substring, and
  a short prompt followed by 5000 spaces is accepted although it is longer than 5000
  characters.
\<close>

theorem process_agentcore_payload_validation_counterexample:
  "(process_agentcore_payload (PDict [(''prompt'', PStr ''<SCRIPT>alert(1)</SCRIPT>'')])
       = Inl (Exn ValueError suspicious_message)
     \<and> strip ''<SCRIPT>alert(1)</SCRIPT>'' \<noteq> []
     \<and> length ''<SCRIPT>alert(1)</SCRIPT>'' \<le> 5000
     \<and> \<not> list_ex (\<lambda>p. sublist p ''<SCRIPT>alert(1)</SCRIPT>'') suspicious_patterns)
   \<and> (process_agentcore_payload
         (PDict [(''prompt'', PStr (''AAPL'' @ replicate 5000 CHR '' ''))]) = Inr ''AAPL''
     \<and> 5000 < length (''AAPL'' @ replicate 5000 CHR '' ''))"
  using upper_case_script_rejected upper_case_script_clean upper_case_script_not_blank
    padded_prompt_accepted
  by simp

text \<open>
  C10. In \<^verbatim>\<open>process_agentcore_payload\<close> the emptiness check comes before the type check:
  a prompt value that is not a string is rejected with the missing-prompt guidance when
  it is falsy and with the must-be-a-string message when it is truthy, both as
  \<^verbatim>\<open>ValueError\<close>, and the must-be-a-string message is raised for truthy values that are
  not strings only.
\<close>

theorem process_agentcore_payload_non_string_prompt:
  "(\<forall>v. dict_get kvs ''prompt'' (PStr '''') = v \<and> \<not> is_str v \<longrightarrow>
        process_agentcore_payload (PDict kvs) =
          Inl (Exn ValueError
                 (if truthy v then not_a_string_message else missing_prompt_message)))
   \<and> (process_agentcore_payload (PDict kvs) = Inl (Exn ValueError not_a_string_message) \<longrightarrow>
        \<not> is_str (dict_get kvs ''prompt'' (PStr ''''))
        \<and> truthy (dict_get kvs ''prompt'' (PStr '''')))"
proof (cases "dict_get kvs ''prompt'' (PStr '''')")
  case (PStr raw)
  then show ?thesis
    by (auto simp: process_agentcore_payload_def check_patterns_iff Let_def
        not_a_string_message_def missing_prompt_message_def too_long_message_def
        suspicious_message_def whitespace_only_message_def)
qed (simp_all add: process_agentcore_payload_def not_a_string_message_def
    missing_prompt_message_def)

theorem process_agentcore_payload_non_string_prompt_witness:
  "process_agentcore_payload (PDict [(''prompt'', PInt 0)])
     = Inl (Exn ValueError missing_prompt_message)
   \<and> process_agentcore_payload (PDict [(''prompt'', PNone)])
     = Inl (Exn ValueError missing_prompt_message)
   \<and> process_agentcore_payload (PDict [(''prompt'', PBool False)])
     = Inl (Exn ValueError missing_prompt_message)
   \<and> process_agentcore_payload (PDict [(''prompt'', PList [])])
     = Inl (Exn ValueError missing_prompt_message)
   \<and> process_agentcore_payload (PDict [(''prompt'', PDict [])])
     = Inl (Exn ValueError missing_prompt_message)
   \<and> process_agentcore_payload (PDict [(''prompt'', PInt 12345)])
     = Inl (Exn ValueError not_a_string_message)"
  using process_agentcore_payload_non_string_prompt [of "[(''prompt'', PInt 0)]"]
    process_agentcore_payload_non_string_prompt [of "[(''prompt'', PNone)]"]
    process_agentcore_payload_non_string_prompt [of "[(''prompt'', PBool False)]"]
    process_agentcore_payload_non_string_prompt [of "[(''prompt'', PList [])]"]
    process_agentcore_payload_non_string_prompt [of "[(''prompt'', PDict [])]"]
    process_agentcore_payload_non_string_prompt [of "[(''prompt'', PInt 12345)]"]
  by (simp add: dict_get_def)

text \<open>
  C9. \<^verbatim>\<open>format_agentcore_response\<close> places the advisor response unchanged in the
  \<^verbatim>\<open>result\<close> field and sets \<^verbatim>\<open>metadata.educational_disclaimer\<close> to true for every
  input text, the empty text and failure messages included: the flag does not depend on
  the response.
\<close>

theorem format_agentcore_response_disclaimer_unconditional:
  "lookup (format_agentcore_response advisor_response ts1 ts2) ''result''
     = Some (PStr advisor_response)
   \<and> (\<exists>metadata.
         lookup (format_agentcore_response advisor_response ts1 ts2) ''metadata''
           = Some metadata
         \<and> lookup metadata ''educational_disclaimer'' = Some (PBool True))"
  by (simp add: format_agentcore_response_def Let_def)

end
